theory Spec2Isabelle
  imports Complex_Main "HOL-Library.AList"
begin

section \<open>JavaScript values\<close>

text \<open>
  The option objects handed to \<^verbatim>\<open>src/docker/docker.js\<close> are plain data: the model has
  the JSON-like values of JavaScript. A number is a rational (every finite double is one;
  \<^verbatim>\<open>NaN\<close> and the infinities are left out), an array is the list of its elements and an
  object the association list of its own properties, the first binding of a key being
  the one that counts. Functions, symbols and prototype chains are not modelled, so an
  object inherits nothing but what \<^verbatim>\<open>Object.prototype\<close> gives a literal.
\<close>

datatype jsval =
    JUndefined
  | JNull
  | JBool bool
  | JNum rat
  | JStr string
  | JArr "jsval list"
  | JObj "(string \<times> jsval) list"

text \<open>An exception of the program: its class and its message.\<close>

datatype js_error = Error string | TypeError string

text \<open>\<^verbatim>\<open>!v\<close> is false exactly for a truthy \<open>v\<close>; an empty array and an empty object are truthy.\<close>

fun truthy :: "jsval \<Rightarrow> bool" where
  "truthy JUndefined = False"
| "truthy JNull = False"
| "truthy (JBool b) = b"
| "truthy (JNum q) = (q \<noteq> 0)"
| "truthy (JStr s) = (s \<noteq> [])"
| "truthy (JArr xs) = True"
| "truthy (JObj fs) = True"

text \<open>
  \<^verbatim>\<open>v.k\<close> for a value that is neither \<^verbatim>\<open>null\<close> nor \<^verbatim>\<open>undefined\<close>: the own property of an
  object, \<^verbatim>\<open>undefined\<close> when there is none; a primitive or an array has none of the keys the
  program reads.
\<close>

fun field :: "jsval \<Rightarrow> string \<Rightarrow> jsval" where
  "field (JObj fs) k = (case map_of fs k of Some v \<Rightarrow> v | None \<Rightarrow> JUndefined)"
| "field v k = JUndefined"

fun nullish :: "jsval \<Rightarrow> bool" where
  "nullish JUndefined = True"
| "nullish JNull = True"
| "nullish v = False"

text \<open>
  Reading a property of \<^verbatim>\<open>null\<close> or \<^verbatim>\<open>undefined\<close> throws; the message is the one of the
  Node versions the repository tests on (10 and 12).
\<close>

definition cannot_read :: "string \<Rightarrow> jsval \<Rightarrow> js_error" where
  "cannot_read k v =
     TypeError (''Cannot read property '' @ [CHR 0x27] @ k @ [CHR 0x27] @ '' of '' @
       (if v = JNull then ''null'' else ''undefined''))"

definition get :: "jsval \<Rightarrow> string \<Rightarrow> js_error + jsval" where
  "get v k = (if nullish v then Inl (cannot_read k v) else Inr (field v k))"

text \<open>\<^verbatim>\<open>v.k = x\<close> on an object; the program assigns to objects only.\<close>

fun set_prop :: "jsval \<Rightarrow> string \<Rightarrow> jsval \<Rightarrow> jsval" where
  "set_prop (JObj fs) k x = JObj (AList.update k x fs)"
| "set_prop v k x = v"

fun is_array :: "jsval \<Rightarrow> bool" where
  "is_array (JArr xs) = True"
| "is_array v = False"

fun elements :: "jsval \<Rightarrow> jsval list" where
  "elements (JArr xs) = xs"
| "elements v = []"

text \<open>\<^verbatim>\<open>Number.isInteger\<close>: a number with no fractional part.\<close>

fun is_integer :: "jsval \<Rightarrow> bool" where
  "is_integer (JNum q) = (of_int \<lfloor>q\<rfloor> = q)"
| "is_integer v = False"

text \<open>
  The conversion a template literal applies to each \<^verbatim>\<open>${...}\<close>. How a number is written
  (\<^verbatim>\<open>Number.prototype.toString\<close>) is the engine's business: it is the parameter \<open>render\<close>.
  An array joins its elements with commas, \<^verbatim>\<open>null\<close> and \<^verbatim>\<open>undefined\<close> elements being
  empty; an object literal is \<^verbatim>\<open>[object Object]\<close>.
\<close>

fun join :: "string list \<Rightarrow> string" where
  "join [] = []"
| "join [s] = s"
| "join (s # t # ss) = s @ '','' @ join (t # ss)"

fun ToString :: "(rat \<Rightarrow> string) \<Rightarrow> jsval \<Rightarrow> string" where
  "ToString render JUndefined = ''undefined''"
| "ToString render JNull = ''null''"
| "ToString render (JBool b) = (if b then ''true'' else ''false'')"
| "ToString render (JNum q) = render q"
| "ToString render (JStr s) = s"
| "ToString render (JArr xs) =
     join (map (\<lambda>x. if nullish x then [] else ToString render x) xs)"
| "ToString render (JObj fs) = ''[object Object]''"

text \<open>
  \<^verbatim>\<open>String.prototype.replace\<close> with a string pattern replaces the first occurrence only:
  \<^verbatim>\<open>stdout.replace('\n', '')\<close> removes the first line feed of \<open>stdout\<close>.
\<close>

definition replace_newline :: "string \<Rightarrow> string" where
  "replace_newline stdout = remove1 (CHR 0x0A) stdout"

text \<open>\<^verbatim>\<open>String.prototype.includes\<close>.\<close>

fun str_includes :: "string \<Rightarrow> string \<Rightarrow> bool" where
  "str_includes [] p = (p = [])"
| "str_includes (c # s) p = (take (length p) (c # s) = p \<or> str_includes s p)"

section \<open>The argument builder\<close>

subsection \<open>Messages\<close>

definition image_message :: string where
  "image_message =
     ''options.image must be provided!\<newline>example:\<newline>new Container({image = 'wordpress:latest'})''"

definition health_command_message :: string where
  "health_command_message = ''options.health.command must not be defined to use options.health''"

definition health_retries_message :: string where
  "health_retries_message = ''options.health.retries must be an integer.''"

definition volumes_example :: string where
  "volumes_example =
     ''example:\<newline>new Container({\<newline>'' @ [CHR 0x09] @ ''volumes: [\<newline>'' @ [CHR 0x09, CHR 0x09] @
     ''{ host: './example.js', docker: '/usr/bin/example.js' }\<newline>'' @ [CHR 0x09] @ '']\<newline>})''"

definition environment_example :: string where
  "environment_example =
     ''example:\<newline>new Container({\<newline>'' @ [CHR 0x09] @ ''environmentVariables: [\<newline>'' @
     [CHR 0x09, CHR 0x09] @ ''{ name: 'DOCKER_ENV', value: 'foo' }\<newline>'' @ [CHR 0x09] @ '']\<newline>})''"

definition ports_example :: string where
  "ports_example =
     ''example:\<newline>new Container({\<newline>'' @ [CHR 0x09] @ ''exposePorts: [\<newline>'' @ [CHR 0x09, CHR 0x09] @
     ''{ host: '8080', docker: '80' }\<newline>'' @ [CHR 0x09] @ '']\<newline>})''"

definition volumes_array_message :: string where
  "volumes_array_message = ''options.volumes must be an array\<newline>'' @ volumes_example"

definition volumes_item_message :: string where
  "volumes_item_message =
     ''options.volumes must contain array of object with docker and host as properties\<newline>'' @
     volumes_example"

definition environment_array_message :: string where
  "environment_array_message =
     ''options.environmentVariables must be an array\<newline>'' @ environment_example"

definition environment_item_message :: string where
  "environment_item_message =
     ''options.environmentVariables must contain array of object with name and value as properties\<newline>'' @
     environment_example"

definition ports_array_message :: string where
  "ports_array_message = ''options.exposePorts must be an array\<newline>'' @ ports_example"

text \<open>The message of a bad port entry names \<^verbatim>\<open>options.volumes\<close>, as the source has it.\<close>

definition ports_item_message :: string where
  "ports_item_message =
     ''options.volumes must contain array of object with docker and host as properties\<newline>'' @
     ports_example"

definition commands_message :: string where
  "commands_message = ''options.commands must be array of string.''"

definition network_name_message :: string where
  "network_name_message =
     ''options.name must be provided!\<newline>example:\<newline>new Network({ name: 'cywp-network' })''"

definition run_commands_message :: string where
  "run_commands_message = ''options.commands must be provided to use RunInContainer.''"

definition run_rm_message :: string where
  "run_rm_message =
     ''options.rm must be true to use RunInContainer. (we don't want to leave garbage aroud)''"

subsection \<open>processCreateContainerOptions\<close>

text \<open>
  \<^verbatim>\<open>Array.prototype.forEach\<close> with a callback that pushes onto \<^verbatim>\<open>args\<close> or throws: the
  callback takes the element and the tokens so far; the first throw ends the loop.
\<close>

fun forEach :: "(jsval \<Rightarrow> jsval list \<Rightarrow> js_error + jsval list) \<Rightarrow> jsval list \<Rightarrow> jsval list
    \<Rightarrow> js_error + jsval list" where
  "forEach f [] args = Inr args"
| "forEach f (item # items) args =
     (case f item args of Inl e \<Rightarrow> Inl e | Inr args' \<Rightarrow> forEach f items args')"

text \<open>The three callbacks, lines 164-170, 180-186 and 196-202.\<close>

definition volume_item :: "(rat \<Rightarrow> string) \<Rightarrow> jsval \<Rightarrow> jsval list \<Rightarrow> js_error + jsval list" where
  "volume_item render item args =
     (if nullish item then Inl (cannot_read ''docker'' item)
      else if \<not> truthy (field item ''docker'') \<or> \<not> truthy (field item ''host'')
      then Inl (Error volumes_item_message)
      else Inr (args @ [JStr ''-v'',
        JStr (ToString render (field item ''host'') @ '':'' @ ToString render (field item ''docker''))]))"

definition environment_item :: "(rat \<Rightarrow> string) \<Rightarrow> jsval \<Rightarrow> jsval list \<Rightarrow> js_error + jsval list" where
  "environment_item render item args =
     (if nullish item then Inl (cannot_read ''name'' item)
      else if \<not> truthy (field item ''name'') \<or> \<not> truthy (field item ''value'')
      then Inl (Error environment_item_message)
      else Inr (args @ [JStr ''-e'',
        JStr (ToString render (field item ''name'') @ ''='' @ ToString render (field item ''value''))]))"

definition port_item :: "(rat \<Rightarrow> string) \<Rightarrow> jsval \<Rightarrow> jsval list \<Rightarrow> js_error + jsval list" where
  "port_item render item args =
     (if nullish item then Inl (cannot_read ''host'' item)
      else if \<not> truthy (field item ''host'') \<or> \<not> truthy (field item ''docker'')
      then Inl (Error ports_item_message)
      else Inr (args @ [JStr ''-p'',
        JStr (ToString render (field item ''host'') @ '':'' @ ToString render (field item ''docker''))]))"

text \<open>
  The blocks of the function body, each taking the tokens pushed so far. Lines 107-111:
  the base tokens, \<^verbatim>\<open>args.pop()\<close> dropping the last of them.
\<close>

definition base_args :: "bool \<Rightarrow> bool \<Rightarrow> jsval list" where
  "base_args run detach =
     (let args = (if run then [JStr ''container'', JStr ''run'', JStr ''--detach'']
                  else [JStr ''container'', JStr ''create''])
      in if run \<and> \<not> detach then butlast args else args)"

text \<open>Lines 117-123.\<close>

definition push_name :: "jsval \<Rightarrow> jsval list \<Rightarrow> jsval list" where
  "push_name options args =
     (if truthy (field options ''name'') then args @ [JStr ''--name'', field options ''name'']
      else args)"

definition push_network :: "jsval \<Rightarrow> jsval list \<Rightarrow> jsval list" where
  "push_network options args =
     (if truthy (field options ''network'') then args @ [JStr ''--net'', field options ''network'']
      else args)"

text \<open>Lines 125-151.\<close>

definition push_health :: "jsval \<Rightarrow> jsval list \<Rightarrow> js_error + jsval list" where
  "push_health options args =
     (let health = field options ''health'' in
      if truthy health then
        if \<not> truthy (field health ''command'') then Inl (TypeError health_command_message)
        else
          let args = args @ [JStr ''--health-cmd'', field health ''command''];
              args = (if truthy (field health ''interval'')
                      then args @ [JStr ''--health-interval'', field health ''interval'']
                      else args)
          in if truthy (field health ''retries'') \<and> \<not> is_integer (field health ''retries'')
             then Inl (TypeError health_retries_message)
             else
               let args = (if truthy (field health ''retries'')
                           then args @ [JStr ''--health-retries'', field health ''retries'']
                           else args);
                   args = (if truthy (field health ''startPeriod'')
                           then args @ [JStr ''--health-start-period'', field health ''startPeriod'']
                           else args);
                   args = (if truthy (field health ''timeout'')
                           then args @ [JStr ''--health-timeout'', field health ''timeout'']
                           else args)
               in Inr args
      else Inr args)"

text \<open>Lines 153-155.\<close>

definition push_rm :: "jsval \<Rightarrow> jsval list \<Rightarrow> jsval list" where
  "push_rm options args = (if truthy (field options ''rm'') then args @ [JStr ''--rm''] else args)"

text \<open>Lines 157-171, 173-187 and 189-203.\<close>

definition push_volumes :: "(rat \<Rightarrow> string) \<Rightarrow> jsval \<Rightarrow> jsval list \<Rightarrow> js_error + jsval list" where
  "push_volumes render options args =
     (let volumes = field options ''volumes'' in
      if truthy volumes then
        if \<not> is_array volumes then Inl (Error volumes_array_message)
        else forEach (volume_item render) (elements volumes) args
      else Inr args)"

definition push_environment :: "(rat \<Rightarrow> string) \<Rightarrow> jsval \<Rightarrow> jsval list \<Rightarrow> js_error + jsval list" where
  "push_environment render options args =
     (let vars = field options ''environmentVariables'' in
      if truthy vars then
        if \<not> is_array vars then Inl (Error environment_array_message)
        else forEach (environment_item render) (elements vars) args
      else Inr args)"

definition push_ports :: "(rat \<Rightarrow> string) \<Rightarrow> jsval \<Rightarrow> jsval list \<Rightarrow> js_error + jsval list" where
  "push_ports render options args =
     (let ports = field options ''exposePorts'' in
      if truthy ports then
        if \<not> is_array ports then Inl (Error ports_array_message)
        else forEach (port_item render) (elements ports) args
      else Inr args)"

text \<open>Lines 205-215: the image, then the commands.\<close>

definition push_image_commands :: "jsval \<Rightarrow> jsval list \<Rightarrow> js_error + jsval list" where
  "push_image_commands options args =
     (let args = args @ [field options ''image''] in
      if truthy (field options ''commands'') then
        if \<not> is_array (field options ''commands'') then Inl (TypeError commands_message)
        else Inr (args @ elements (field options ''commands''))
      else Inr args)"

text \<open>Sequencing of statements that may throw.\<close>

definition and_then :: "js_error + 'a \<Rightarrow> ('a \<Rightarrow> js_error + 'b) \<Rightarrow> js_error + 'b" where
  "and_then r f = (case r of Inl e \<Rightarrow> Inl e | Inr x \<Rightarrow> f x)"

text \<open>Lines 117-203, the statements between the image check and the push of the image.\<close>

definition push_options :: "(rat \<Rightarrow> string) \<Rightarrow> jsval \<Rightarrow> jsval list \<Rightarrow> js_error + jsval list" where
  "push_options render options args =
     and_then (push_health options (push_network options (push_name options args))) (\<lambda>args.
     and_then (push_volumes render options (push_rm options args)) (\<lambda>args.
     and_then (push_environment render options args) (\<lambda>args.
     push_ports render options args)))"

definition processCreateContainerOptions ::
    "(rat \<Rightarrow> string) \<Rightarrow> jsval \<Rightarrow> bool \<Rightarrow> bool \<Rightarrow> js_error + jsval list" where
  "processCreateContainerOptions render options run detach =
     (let args = base_args run detach in
      if \<not> truthy options \<or> \<not> truthy (field options ''image'') then Inl (Error image_message)
      else and_then (push_options render options args) (push_image_commands options))"

subsection \<open>ProcessCreateNetworkOption\<close>

definition ProcessCreateNetworkOption :: "jsval \<Rightarrow> js_error + jsval list" where
  "ProcessCreateNetworkOption options =
     (let args = [JStr ''network'', JStr ''create''] in
      if \<not> truthy options \<or> \<not> truthy (field options ''name'') then Inl (Error network_name_message)
      else Inr (args @ [field options ''name'']))"

section \<open>The operations of class Docker\<close>

subsection \<open>The process and the promise\<close>

text \<open>
  \<^verbatim>\<open>spawn('docker', args)\<close> starts the external tool. What the tool does is not the
  program's: it is the parameter \<open>docker\<close> of each operation, a function from the argument
  vector to the way the process ends.
\<close>

datatype proc_outcome =
    Exited int string string  \<comment> \<open>exit code, accumulated stdout, accumulated stderr\<close>
  | LaunchFailed string

datatype rejection = ExecutionError string | ExecutionErrorGeneric | LaunchError string

datatype 'a settled = Resolved 'a | Rejected rejection

text \<open>
  Modelled from the spec: \<^verbatim>\<open>ReturnPromise\<close> of \<^verbatim>\<open>src/docker/util.js\<close>, which is not among
  the sources. Section 4.2: on exit code zero the promise resolves with the value of the
  completion transform applied to the accumulated stdout and stderr; on a non-zero exit
  code it fails with an execution error whose message is the accumulated stderr, or a
  generic message when stderr is empty; a process that cannot be launched fails with a
  launch error. The transforms of \<^verbatim>\<open>docker.js\<close> assign to the object their \<^verbatim>\<open>options\<close>
  variable refers to, so a transform takes that object and returns it with its value;
  the transform runs on success only.
\<close>

definition ReturnPromise ::
    "proc_outcome \<Rightarrow> (string \<Rightarrow> string \<Rightarrow> 's \<Rightarrow> 'a \<times> 's) \<Rightarrow> 's \<Rightarrow> 'a settled \<times> 's" where
  "ReturnPromise process callback obj =
     (case process of
        Exited code stdout stderr \<Rightarrow>
          if code = 0 then (case callback stdout stderr obj of (v, obj') \<Rightarrow> (Resolved v, obj'))
          else (Rejected (if stderr = [] then ExecutionErrorGeneric else ExecutionError stderr), obj)
      | LaunchFailed why \<Rightarrow> (Rejected (LaunchError why), obj))"

text \<open>
  Modelled from the spec: the classes \<^verbatim>\<open>Container\<close>, \<^verbatim>\<open>Volume\<close> and \<^verbatim>\<open>Network\<close> of
  \<^verbatim>\<open>container.js\<close>, \<^verbatim>\<open>volume.js\<close> and \<^verbatim>\<open>network.js\<close>, which are not among the sources.
  Section 4.3: typed containers for configuration plus runtime identity and status, with
  no behaviour beyond field access. An entity holds the options object its constructor
  was given.
\<close>

datatype entity = Container jsval | Volume jsval | Network jsval

fun entity_options :: "entity \<Rightarrow> jsval" where
  "entity_options (Container options) = options"
| "entity_options (Volume options) = options"
| "entity_options (Network options) = options"

definition entity_id :: "entity \<Rightarrow> jsval" where
  "entity_id e = field (entity_options e) ''id''"

definition entity_name :: "entity \<Rightarrow> jsval" where
  "entity_name e = field (entity_options e) ''name''"

definition entity_status :: "entity \<Rightarrow> jsval" where
  "entity_status e = field (entity_options e) ''status''"

text \<open>
  What a call that got as far as \<^verbatim>\<open>spawn\<close> did: the argument vector it gave to
  \<^verbatim>\<open>spawn('docker', ...)\<close>, how the promise it returned settles, and the value of the
  caller's argument once the promise has settled. A call that throws before \<^verbatim>\<open>spawn\<close>
  is the \<open>Inl\<close> of its exception.
\<close>

record 'a call =
  argv :: "jsval list"
  promise :: "'a settled"
  argument :: jsval

text \<open>
  The two statements each operation ends with: \<^verbatim>\<open>spawn('docker', args)\<close>, then
  \<^verbatim>\<open>ReturnPromise\<close> on the process with the operation's transform.
\<close>

definition spawn_and_return ::
    "(jsval list \<Rightarrow> proc_outcome) \<Rightarrow> jsval list \<Rightarrow> (string \<Rightarrow> string \<Rightarrow> jsval \<Rightarrow> 'a \<times> jsval) \<Rightarrow> jsval
      \<Rightarrow> 'a call" where
  "spawn_and_return docker args callback obj =
     (let process = docker args;
          settled = ReturnPromise process callback obj
      in \<lparr>argv = args, promise = fst settled, argument = snd settled\<rparr>)"

subsection \<open>CreateContainer\<close>

text \<open>A parameter with a default value: \<^verbatim>\<open>run = false\<close>, \<^verbatim>\<open>detach = true\<close>.\<close>

fun default_to :: "'a \<Rightarrow> 'a option \<Rightarrow> 'a" where
  "default_to d None = d"
| "default_to d (Some x) = x"

text \<open>The transform of lines 22-29, on the object \<open>options\<close> refers to.\<close>

definition container_created :: "bool \<Rightarrow> string \<Rightarrow> string \<Rightarrow> jsval \<Rightarrow> entity \<times> jsval" where
  "container_created run stdout stderr options =
     (let options = set_prop options ''id'' (JStr (replace_newline stdout));
          options = set_prop options ''status'' (JStr (if run then ''started'' else ''created''));
          options = (if truthy (field options ''rm'')
                     then set_prop options ''status'' (JStr ''removed'') else options)
      in (Container options, options))"

definition CreateContainer ::
    "(rat \<Rightarrow> string) \<Rightarrow> (jsval list \<Rightarrow> proc_outcome) \<Rightarrow> jsval \<Rightarrow> bool option \<Rightarrow> bool option
      \<Rightarrow> js_error + entity call" where
  "CreateContainer render docker options run_arg detach_arg =
     (let run = default_to False run_arg; detach = default_to True detach_arg in
      and_then (processCreateContainerOptions render options run detach) (\<lambda>args.
        Inr (spawn_and_return docker args (container_created run) options)))"

subsection \<open>RunInContainer\<close>

definition run_output :: "string \<Rightarrow> string \<Rightarrow> jsval \<Rightarrow> jsval \<times> jsval" where
  "run_output stdout stderr options =
     (JObj [(''stdout'', JStr stdout), (''stderr'', JStr stderr)], options)"

definition RunInContainer ::
    "(rat \<Rightarrow> string) \<Rightarrow> (jsval list \<Rightarrow> proc_outcome) \<Rightarrow> jsval \<Rightarrow> js_error + jsval call" where
  "RunInContainer render docker options =
     and_then (get options ''commands'') (\<lambda>commands.
       if \<not> truthy commands then Inl (TypeError run_commands_message)
       else if \<not> truthy (field options ''rm'') then Inl (TypeError run_rm_message)
       else
         and_then (processCreateContainerOptions render options True False) (\<lambda>args.
           Inr (spawn_and_return docker args run_output options)))"

subsection \<open>CreateVolume\<close>

text \<open>The transform of lines 65-71 builds a fresh object; the caller's name is not touched.\<close>

definition volume_created :: "string \<Rightarrow> string \<Rightarrow> jsval \<Rightarrow> entity \<times> jsval" where
  "volume_created stdout stderr name =
     (let options = JObj [];
          options = set_prop options ''name'' (JStr (replace_newline stdout));
          options = set_prop options ''status'' (JStr ''alive'')
      in (Volume options, name))"

definition CreateVolume :: "(jsval list \<Rightarrow> proc_outcome) \<Rightarrow> jsval \<Rightarrow> js_error + entity call" where
  "CreateVolume docker name =
     (let args = [JStr ''volume'', JStr ''create'', name] in
      Inr (spawn_and_return docker args volume_created name))"

subsection \<open>CreateNetwork\<close>

fun is_string :: "jsval \<Rightarrow> bool" where
  "is_string (JStr s) = True"
| "is_string v = False"

definition network_created :: "string \<Rightarrow> string \<Rightarrow> jsval \<Rightarrow> entity \<times> jsval" where
  "network_created stdout stderr options =
     (let options = set_prop options ''id'' (JStr (replace_newline stdout));
          options = set_prop options ''status'' (JStr ''alive'')
      in (Network options, options))"

text \<open>
  Given a string, line 82 makes \<^verbatim>\<open>options\<close> refer to a fresh object: the transform then
  writes to that object and the caller's string stays what it was. Given anything else,
  \<^verbatim>\<open>options\<close> is the caller's own object.
\<close>

definition CreateNetwork :: "(jsval list \<Rightarrow> proc_outcome) \<Rightarrow> jsval \<Rightarrow> js_error + entity call" where
  "CreateNetwork docker arg =
     (let options = (if is_string arg then JObj [(''name'', arg)] else arg) in
      and_then (ProcessCreateNetworkOption options) (\<lambda>args.
        let c = spawn_and_return docker args network_created options
        in Inr (if is_string arg then c\<lparr>argument := arg\<rparr> else c)))"

section \<open>The specification's reading of the builder\<close>

text \<open>
  The definitions of this section follow the words of the specification, to be compared
  with the functions above. A field is provided when its value is truthy, the test the
  builder applies throughout.
\<close>

definition provided :: "jsval \<Rightarrow> string \<Rightarrow> bool" where
  "provided v k = truthy (field v k)"

text \<open>\<^verbatim>\<open>delete v.k\<close>: the object without the property.\<close>

fun delete_prop :: "jsval \<Rightarrow> string \<Rightarrow> jsval" where
  "delete_prop (JObj fs) k = JObj (AList.delete k fs)"
| "delete_prop v k = v"

text \<open>
  Section 4.1, validation: the image is there; a health block has its command and, when
  it has retries, a whole number of them; volumes, environment variables and exposed
  ports are list-shaped with both pair fields in every entry; the commands (section 3:
  an ordered list) are list-shaped.
\<close>

definition has_pair :: "string \<Rightarrow> string \<Rightarrow> jsval \<Rightarrow> bool" where
  "has_pair a b item = (provided item a \<and> provided item b)"

definition list_valued :: "jsval \<Rightarrow> string \<Rightarrow> string \<Rightarrow> string \<Rightarrow> bool" where
  "list_valued options k a b =
     (provided options k \<longrightarrow>
        is_array (field options k) \<and> list_all (has_pair a b) (elements (field options k)))"

definition health_ok :: "jsval \<Rightarrow> bool" where
  "health_ok options =
     (provided options ''health'' \<longrightarrow>
        provided (field options ''health'') ''command'' \<and>
        (provided (field options ''health'') ''retries'' \<longrightarrow>
           is_integer (field (field options ''health'') ''retries'')))"

definition accepted :: "jsval \<Rightarrow> bool" where
  "accepted options =
     (provided options ''image'' \<and>
      health_ok options \<and>
      list_valued options ''volumes'' ''host'' ''docker'' \<and>
      list_valued options ''environmentVariables'' ''name'' ''value'' \<and>
      list_valued options ''exposePorts'' ''host'' ''docker'' \<and>
      (provided options ''commands'' \<longrightarrow> is_array (field options ''commands'')))"

text \<open>Section 4.1, base tokens and token emission order.\<close>

definition base_tokens :: "bool \<Rightarrow> bool \<Rightarrow> jsval list" where
  "base_tokens run detach =
     (if \<not> run then [JStr ''container'', JStr ''create'']
      else if detach then [JStr ''container'', JStr ''run'', JStr ''--detach'']
      else [JStr ''container'', JStr ''run''])"

definition flag_pair :: "string \<Rightarrow> jsval \<Rightarrow> jsval list" where
  "flag_pair flag v = (if truthy v then [JStr flag, v] else [])"

definition health_tokens :: "jsval \<Rightarrow> jsval list" where
  "health_tokens health =
     (if truthy health then
        flag_pair ''--health-cmd'' (field health ''command'') @
        flag_pair ''--health-interval'' (field health ''interval'') @
        flag_pair ''--health-retries'' (field health ''retries'') @
        flag_pair ''--health-start-period'' (field health ''startPeriod'') @
        flag_pair ''--health-timeout'' (field health ''timeout'')
      else [])"

definition remove_flag :: "jsval \<Rightarrow> jsval list" where
  "remove_flag rm = (if truthy rm then [JStr ''--rm''] else [])"

definition mount_pair :: "(rat \<Rightarrow> string) \<Rightarrow> jsval \<Rightarrow> jsval list" where
  "mount_pair render item =
     [JStr ''-v'',
      JStr (ToString render (field item ''host'') @ '':'' @ ToString render (field item ''docker''))]"

definition environment_pair :: "(rat \<Rightarrow> string) \<Rightarrow> jsval \<Rightarrow> jsval list" where
  "environment_pair render item =
     [JStr ''-e'',
      JStr (ToString render (field item ''name'') @ ''='' @ ToString render (field item ''value''))]"

definition port_pair :: "(rat \<Rightarrow> string) \<Rightarrow> jsval \<Rightarrow> jsval list" where
  "port_pair render item =
     [JStr ''-p'',
      JStr (ToString render (field item ''host'') @ '':'' @ ToString render (field item ''docker''))]"

text \<open>The tokens between the base tokens and the image.\<close>

definition option_tokens :: "(rat \<Rightarrow> string) \<Rightarrow> jsval \<Rightarrow> jsval list" where
  "option_tokens render options =
     flag_pair ''--name'' (field options ''name'') @
     flag_pair ''--net'' (field options ''network'') @
     health_tokens (field options ''health'') @
     remove_flag (field options ''rm'') @
     concat (map (mount_pair render) (elements (field options ''volumes''))) @
     concat (map (environment_pair render) (elements (field options ''environmentVariables''))) @
     concat (map (port_pair render) (elements (field options ''exposePorts'')))"

text \<open>
  The values a configuration supplies as tokens of their own: name, network, the health
  fields, the image and the commands.
\<close>

definition supplied_values :: "jsval \<Rightarrow> jsval list" where
  "supplied_values options =
     [field options ''name'', field options ''network'',
      field (field options ''health'') ''command'', field (field options ''health'') ''interval'',
      field (field options ''health'') ''retries'', field (field options ''health'') ''startPeriod'',
      field (field options ''health'') ''timeout'', field options ''image''] @
     elements (field options ''commands'')"

text \<open>The name a caller of \<^verbatim>\<open>CreateNetwork\<close> supplies: the bare string, or the name field.\<close>

definition supplied_name :: "jsval \<Rightarrow> jsval" where
  "supplied_name arg = (if is_string arg then arg else field arg ''name'')"

text \<open>
  Trimmed text: without the white space at either end (\<^verbatim>\<open>String.prototype.trim\<close> on ASCII
  text).
\<close>

definition is_space :: "char \<Rightarrow> bool" where
  "is_space c = (c \<in> set [CHR '' '', CHR 0x09, CHR 0x0A, CHR 0x0B, CHR 0x0C, CHR 0x0D])"

definition trimmed :: "string \<Rightarrow> string" where
  "trimmed s = rev (dropWhile is_space (rev (dropWhile is_space s)))"

text \<open>A message carries a usage example when it has the line that introduces one.\<close>

definition carries_example :: "string \<Rightarrow> bool" where
  "carries_example message = str_includes message ''example:''"

text \<open>Two values no presence check tells apart: the same value, or two falsy ones.\<close>

definition same_if_provided :: "jsval \<Rightarrow> jsval \<Rightarrow> bool" where
  "same_if_provided x y = (x = y \<or> \<not> truthy x \<and> \<not> truthy y)"

text \<open>The configuration with one more entry at the end of a list-valued option.\<close>

definition with_entry :: "jsval \<Rightarrow> string \<Rightarrow> jsval \<Rightarrow> jsval" where
  "with_entry options k entry = set_prop options k (JArr (elements (field options k) @ [entry]))"

text \<open>The exceptions the \<^verbatim>\<open>throw\<close> statements of \<^verbatim>\<open>processCreateContainerOptions\<close> build.\<close>

definition thrown_by_builder :: "js_error \<Rightarrow> bool" where
  "thrown_by_builder e =
     (e \<in> set [Error image_message, Error volumes_array_message, Error volumes_item_message,
        Error environment_array_message, Error environment_item_message,
        Error ports_array_message, Error ports_item_message,
        TypeError health_command_message, TypeError health_retries_message,
        TypeError commands_message])"

section \<open>Concrete inputs\<close>

text \<open>
  \<^verbatim>\<open>Number.prototype.toString\<close> on the whole numbers below \<open>10^21\<close>: a minus sign and the
  decimal digits. The inputs of this section have no other number converted to a string.
\<close>

fun digit_chars :: "nat \<Rightarrow> string" where
  "digit_chars n =
     (if n < 10 then [char_of (48 + n)]
      else digit_chars (n div 10) @ [char_of (48 + n mod 10)])"

declare digit_chars.simps [simp del]

definition decimal :: "rat \<Rightarrow> string" where
  "decimal q = (if q < 0 then ''-'' else []) @ digit_chars (nat \<lfloor>\<bar>q\<bar>\<rfloor>)"

text \<open>A docker that exits with code 0 after printing \<open>out\<close>.\<close>

definition prints :: "string \<Rightarrow> jsval list \<Rightarrow> proc_outcome" where
  "prints out args = Exited 0 out []"

text \<open>A docker that exits with code 1 after writing \<open>err\<close> to stderr.\<close>

definition refuses :: "string \<Rightarrow> jsval list \<Rightarrow> proc_outcome" where
  "refuses err args = Exited 1 [] err"

definition full_options :: jsval where
  "full_options =
     JObj [(''image'', JStr ''wordpress:latest''),
           (''name'', JStr ''blog''),
           (''network'', JStr ''cywp-network''),
           (''health'', JObj [(''command'', JStr ''curl -f localhost''), (''interval'', JStr ''5s''),
              (''retries'', JNum 3), (''startPeriod'', JStr ''10s''), (''timeout'', JStr ''2s'')]),
           (''rm'', JBool True),
           (''volumes'', JArr [JObj [(''host'', JStr ''./a''), (''docker'', JStr ''/b'')]]),
           (''environmentVariables'',
              JArr [JObj [(''name'', JStr ''DOCKER_ENV''), (''value'', JStr ''foo'')]]),
           (''exposePorts'', JArr [JObj [(''host'', JStr ''8000''), (''docker'', JStr ''80'')]]),
           (''commands'', JArr [JStr ''ls'', JStr ''-la''])]"

definition image_only :: jsval where
  "image_only = JObj [(''image'', JStr ''hello-world'')]"

definition ephemeral :: jsval where
  "ephemeral = JObj [(''image'', JStr ''hello-world''), (''rm'', JBool True)]"

definition detach_command :: jsval where
  "detach_command = JObj [(''image'', JStr ''hello-world''), (''commands'', JArr [JStr ''--detach''])]"

definition empty_commands :: jsval where
  "empty_commands =
     JObj [(''image'', JStr ''hello-world''), (''rm'', JBool True), (''commands'', JArr [])]"

definition blank_commands :: jsval where
  "blank_commands = JObj [(''image'', JStr ''hello-world''), (''commands'', JStr [])]"

definition text_commands :: jsval where
  "text_commands =
     JObj [(''image'', JStr ''hello-world''), (''rm'', JBool True), (''commands'', JStr ''ls'')]"

definition no_health_command :: jsval where
  "no_health_command =
     JObj [(''image'', JStr ''hello-world''), (''health'', JObj [(''retries'', JNum 3)])]"

definition zero_retries :: jsval where
  "zero_retries = JObj [(''command'', JStr ''true''), (''retries'', JNum 0)]"

definition zero_port :: jsval where
  "zero_port = JObj [(''host'', JNum 0), (''docker'', JStr ''80'')]"

section \<open>Properties\<close>

subsection \<open>Objects\<close>

lemma field_update:
  "field (JObj (AList.update k x fs)) k' = (if k' = k then x else field (JObj fs) k')"
  by (simp add: update_conv')

lemma field_delete:
  "field (JObj (AList.delete k fs)) k' = (if k' = k then JUndefined else field (JObj fs) k')"
  by (simp add: delete_conv')

lemma truthy_field_object: "truthy (field v k) \<Longrightarrow> \<exists>fs. v = JObj fs"
  by (cases v) simp_all

lemma and_then_Inr_iff:
  "and_then r f = Inr y \<longleftrightarrow> (\<exists>x. r = Inr x \<and> f x = Inr y)"
  by (cases r) (simp_all add: and_then_def)

lemma and_then_Inl_iff:
  "and_then r f = Inl e \<longleftrightarrow> r = Inl e \<or> (\<exists>x. r = Inr x \<and> f x = Inl e)"
  by (cases r) (simp_all add: and_then_def)

subsection \<open>The loops\<close>

lemma forEach_Inr_iff:
  assumes "\<And>item args a. f item args = Inr a \<longleftrightarrow> ok item \<and> a = args @ g item"
  shows "forEach f items args = Inr a \<longleftrightarrow> list_all ok items \<and> a = args @ concat (map g items)"
proof (induction items arbitrary: args)
  case Nil
  show ?case by auto
next
  case (Cons item items)
  show ?case
  proof (cases "f item args")
    case (Inl e)
    with assms [of item args] show ?thesis by auto
  next
    case (Inr b)
    with assms [of item args b] have "ok item" "b = args @ g item" by simp_all
    with Inr Cons.IH [of b] show ?thesis by simp
  qed
qed

lemma forEach_Inl:
  assumes "forEach f items args = Inl e"
  shows "\<exists>item args'. item \<in> set items \<and> f item args' = Inl e"
  using assms
proof (induction items arbitrary: args)
  case Nil
  then show ?case by simp
next
  case (Cons item items)
  then show ?case by (cases "f item args") (auto, blast)
qed

lemma volume_item_Inr_iff:
  "volume_item render item args = Inr a \<longleftrightarrow>
     has_pair ''host'' ''docker'' item \<and> a = args @ mount_pair render item"
  by (cases item) (auto simp: volume_item_def has_pair_def provided_def mount_pair_def)

lemma environment_item_Inr_iff:
  "environment_item render item args = Inr a \<longleftrightarrow>
     has_pair ''name'' ''value'' item \<and> a = args @ environment_pair render item"
  by (cases item) (auto simp: environment_item_def has_pair_def provided_def environment_pair_def)

lemma port_item_Inr_iff:
  "port_item render item args = Inr a \<longleftrightarrow>
     has_pair ''host'' ''docker'' item \<and> a = args @ port_pair render item"
  by (cases item) (auto simp: port_item_def has_pair_def provided_def port_pair_def)

subsection \<open>The blocks of the builder\<close>

lemma elements_falsy: "\<not> truthy v \<Longrightarrow> elements v = []"
  by (cases v) simp_all

lemma push_volumes_Inr_iff:
  "push_volumes render options args = Inr a \<longleftrightarrow>
     list_valued options ''volumes'' ''host'' ''docker'' \<and>
     a = args @ concat (map (mount_pair render) (elements (field options ''volumes'')))"
  by (auto simp: push_volumes_def list_valued_def provided_def Let_def elements_falsy
      forEach_Inr_iff [of "volume_item render", OF volume_item_Inr_iff])

lemma push_environment_Inr_iff:
  "push_environment render options args = Inr a \<longleftrightarrow>
     list_valued options ''environmentVariables'' ''name'' ''value'' \<and>
     a = args @ concat (map (environment_pair render) (elements (field options ''environmentVariables'')))"
  by (auto simp: push_environment_def list_valued_def provided_def Let_def elements_falsy
      forEach_Inr_iff [of "environment_item render", OF environment_item_Inr_iff])

lemma push_ports_Inr_iff:
  "push_ports render options args = Inr a \<longleftrightarrow>
     list_valued options ''exposePorts'' ''host'' ''docker'' \<and>
     a = args @ concat (map (port_pair render) (elements (field options ''exposePorts'')))"
  by (auto simp: push_ports_def list_valued_def provided_def Let_def elements_falsy
      forEach_Inr_iff [of "port_item render", OF port_item_Inr_iff])

lemma push_health_Inr_iff:
  "push_health options args = Inr a \<longleftrightarrow>
     health_ok options \<and> a = args @ health_tokens (field options ''health'')"
  by (auto simp: push_health_def health_ok_def provided_def Let_def health_tokens_def flag_pair_def)

lemma base_args_tokens: "base_args run detach = base_tokens run detach"
  by (simp add: base_args_def base_tokens_def)

lemma push_options_Inr_iff:
  "push_options render options args = Inr a \<longleftrightarrow>
     health_ok options \<and>
     list_valued options ''volumes'' ''host'' ''docker'' \<and>
     list_valued options ''environmentVariables'' ''name'' ''value'' \<and>
     list_valued options ''exposePorts'' ''host'' ''docker'' \<and>
     a = args @ option_tokens render options"
  unfolding push_options_def and_then_Inr_iff push_health_Inr_iff push_volumes_Inr_iff
    push_environment_Inr_iff push_ports_Inr_iff
  by (auto simp: option_tokens_def push_name_def push_network_def push_rm_def flag_pair_def
      remove_flag_def)

lemma push_image_commands_Inr_iff:
  "push_image_commands options args = Inr a \<longleftrightarrow>
     (provided options ''commands'' \<longrightarrow> is_array (field options ''commands'')) \<and>
     a = args @ [field options ''image''] @ elements (field options ''commands'')"
  by (auto simp: push_image_commands_def provided_def Let_def elements_falsy)

lemma builder_Inr_iff:
  "processCreateContainerOptions render options run detach = Inr a \<longleftrightarrow>
     accepted options \<and>
     a = base_tokens run detach @ option_tokens render options @
         [field options ''image''] @ elements (field options ''commands'')"
  unfolding processCreateContainerOptions_def Let_def base_args_tokens
  by (cases "truthy (field options ''image'')")
     (auto simp: and_then_Inr_iff push_options_Inr_iff push_image_commands_Inr_iff
        accepted_def provided_def dest: truthy_field_object)


subsection \<open>Calls that reach the process\<close>

lemma builder_object:
  "processCreateContainerOptions render options run detach = Inr args \<Longrightarrow> \<exists>fs. options = JObj fs"
  by (auto simp: builder_Inr_iff accepted_def provided_def dest: truthy_field_object)

lemma ReturnPromise_Resolved:
  "fst (ReturnPromise process callback obj) = Resolved v \<longleftrightarrow>
     (\<exists>out err. process = Exited 0 out err \<and> fst (callback out err obj) = v)"
  by (auto simp: ReturnPromise_def split: proc_outcome.splits prod.splits)

lemma ReturnPromise_success:
  "ReturnPromise (Exited 0 out err) callback obj =
     (Resolved (fst (callback out err obj)), snd (callback out err obj))"
  by (simp add: ReturnPromise_def split: prod.splits)

lemma spawn_and_return_Resolved:
  assumes "promise (spawn_and_return docker args callback obj) = Resolved e"
  shows "\<exists>out err. docker args = Exited 0 out err \<and> e = fst (callback out err obj) \<and>
     argument (spawn_and_return docker args callback obj) = snd (callback out err obj)"
proof -
  from assms obtain out err where "docker args = Exited 0 out err" "fst (callback out err obj) = e"
    by (auto simp: spawn_and_return_def Let_def ReturnPromise_Resolved)
  then show ?thesis
    by (auto simp: spawn_and_return_def Let_def ReturnPromise_success)
qed

lemma argv_spawn_and_return [simp]: "argv (spawn_and_return docker args callback obj) = args"
  by (simp add: spawn_and_return_def Let_def)

lemma CreateContainer_Resolved:
  assumes "CreateContainer render docker options run detach = Inr c"
    and "promise c = Resolved e"
  shows "\<exists>out err fs. options = JObj fs \<and> docker (argv c) = Exited 0 out err \<and>
     processCreateContainerOptions render options (default_to False run) (default_to True detach) = Inr (argv c) \<and>
     e = fst (container_created (default_to False run) out err options) \<and>
     argument c = snd (container_created (default_to False run) out err options)"
proof -
  from assms(1) obtain args where
    b: "processCreateContainerOptions render options (default_to False run) (default_to True detach) = Inr args"
    and c: "c = spawn_and_return docker args (container_created (default_to False run)) options"
    by (auto simp: CreateContainer_def Let_def and_then_Inr_iff)
  from spawn_and_return_Resolved [OF assms(2) [unfolded c]] b c builder_object [OF b]
  show ?thesis by auto
qed

lemma container_created_object:
  "container_created run out err (JObj fs) =
     (let obj = JObj (AList.update ''status''
                  (JStr (if truthy (field (JObj fs) ''rm'') then ''removed''
                         else if run then ''started'' else ''created''))
                  (AList.update ''id'' (JStr (replace_newline out)) fs))
      in (Container obj, obj))"
  by (simp add: container_created_def Let_def field_update del: field.simps)

text \<open>Unfolding the model on a concrete input.\<close>

lemmas builder_defs =
  processCreateContainerOptions_def base_args_def push_options_def push_name_def push_network_def
  push_health_def push_rm_def push_volumes_def push_environment_def push_ports_def
  push_image_commands_def volume_item_def environment_item_def port_item_def and_then_def

lemmas promise_defs = spawn_and_return_def ReturnPromise_def prints_def

subsection \<open>Tokens the builder adds\<close>

lemma pair_token_not_detach:
  "''--detach'' \<noteq> s @ CHR '':'' # t" "''--detach'' \<noteq> s @ CHR ''='' # t"
proof -
  have "CHR '':'' \<in> set (s @ CHR '':'' # t)" "CHR ''='' \<in> set (s @ CHR ''='' # t)" by simp_all
  moreover have "CHR '':'' \<notin> set ''--detach''" "CHR ''='' \<notin> set ''--detach''" by simp_all
  ultimately show "''--detach'' \<noteq> s @ CHR '':'' # t" "''--detach'' \<noteq> s @ CHR ''='' # t"
    by metis+
qed

lemma detach_in_option_tokens:
  assumes "JStr ''--detach'' \<in> set (option_tokens render options)"
  shows "JStr ''--detach'' \<in> set (supplied_values options)"
proof -
  have "JStr ''--detach'' \<notin> set (concat (map (mount_pair render) items))"
       "JStr ''--detach'' \<notin> set (concat (map (environment_pair render) items))"
       "JStr ''--detach'' \<notin> set (concat (map (port_pair render) items))" for items
    by (induction items)
       (simp_all add: mount_pair_def environment_pair_def port_pair_def pair_token_not_detach)
  with assms show ?thesis
    by (auto simp: option_tokens_def supplied_values_def flag_pair_def health_tokens_def
        remove_flag_def split: if_splits)
qed

subsection \<open>Reading the options\<close>

lemma get_Inr: "\<not> nullish v \<Longrightarrow> get v k = Inr (field v k)"
  by (simp add: get_def)

lemma provided_not_nullish: "provided v k \<Longrightarrow> \<not> nullish v"
  by (cases v) (simp_all add: provided_def)

subsection \<open>Created entities\<close>

lemma replace_newline_line:
  "CHR 0x0A \<notin> set line \<Longrightarrow> replace_newline (line @ [CHR 0x0A]) = line"
  "CHR 0x0A \<notin> set line \<Longrightarrow> replace_newline line = line"
  by (simp_all add: replace_newline_def remove1_append remove1_idem)

lemma network_object:
  "ProcessCreateNetworkOption options = Inr args \<Longrightarrow>
     (\<exists>fs. options = JObj fs) \<and> truthy (field options ''name'') \<and>
     args = [JStr ''network'', JStr ''create'', field options ''name'']"
  by (auto simp: ProcessCreateNetworkOption_def Let_def dest: truthy_field_object split: if_splits)

lemma network_created_object:
  "network_created out err (JObj fs) =
     (let obj = JObj (AList.update ''status'' (JStr ''alive'')
                  (AList.update ''id'' (JStr (replace_newline out)) fs))
      in (Network obj, obj))"
  by (simp add: network_created_def Let_def)

lemma CreateNetwork_Resolved:
  assumes "CreateNetwork docker arg = Inr c" and "promise c = Resolved e"
  shows "\<exists>out err fs. (if is_string arg then JObj [(''name'', arg)] else arg) = JObj fs \<and>
     docker (argv c) = Exited 0 out err \<and>
     argv c = [JStr ''network'', JStr ''create'', supplied_name arg] \<and>
     e = fst (network_created out err (JObj fs)) \<and>
     argument c = (if is_string arg then arg else snd (network_created out err (JObj fs)))"
proof -
  let ?options = "if is_string arg then JObj [(''name'', arg)] else arg"
  from assms(1) obtain args where
    b: "ProcessCreateNetworkOption ?options = Inr args"
    and c: "c = (let c = spawn_and_return docker args network_created ?options
                 in if is_string arg then c\<lparr>argument := arg\<rparr> else c)"
    by (auto simp: CreateNetwork_def Let_def and_then_Inr_iff)
  from network_object [OF b] obtain fs where fs: "?options = JObj fs"
    and args: "args = [JStr ''network'', JStr ''create'', field ?options ''name'']" by blast
  have name: "field ?options ''name'' = supplied_name arg"
    by (simp add: supplied_name_def)
  from assms(2) c have "promise (spawn_and_return docker args network_created ?options) = Resolved e"
    by (simp add: Let_def split: if_splits)
  from spawn_and_return_Resolved [OF this] obtain out err where
    "docker args = Exited 0 out err" "e = fst (network_created out err ?options)"
    "argument (spawn_and_return docker args network_created ?options) = snd (network_created out err ?options)"
    by blast
  with c fs args name show ?thesis
    by (auto simp: Let_def)
qed

lemma CreateVolume_Resolved:
  assumes "CreateVolume docker name = Inr c" and "promise c = Resolved e"
  shows "\<exists>out err. docker (argv c) = Exited 0 out err \<and>
     e = Volume (JObj [(''name'', JStr (replace_newline out)), (''status'', JStr ''alive'')]) \<and>
     argument c = name"
proof -
  from assms(1) have c: "c = spawn_and_return docker [JStr ''volume'', JStr ''create'', name] volume_created name"
    by (auto simp: CreateVolume_def Let_def)
  from spawn_and_return_Resolved [OF assms(2) [unfolded c]] c show ?thesis
    by (auto simp: volume_created_def Let_def)
qed

lemma ReturnPromise_not_Resolved:
  "\<forall>v. fst (ReturnPromise process callback obj) \<noteq> Resolved v \<Longrightarrow>
     snd (ReturnPromise process callback obj) = obj"
  by (auto simp: ReturnPromise_def split: proc_outcome.splits prod.splits if_splits)

subsection \<open>Exceptions of the builder\<close>

lemma volume_item_Inl:
  "volume_item render item args = Inl e \<Longrightarrow>
     e = Error volumes_item_message \<or> (nullish item \<and> e = cannot_read ''docker'' item)"
  by (auto simp: volume_item_def split: if_splits)

lemma environment_item_Inl:
  "environment_item render item args = Inl e \<Longrightarrow>
     e = Error environment_item_message \<or> (nullish item \<and> e = cannot_read ''name'' item)"
  by (auto simp: environment_item_def split: if_splits)

lemma port_item_Inl:
  "port_item render item args = Inl e \<Longrightarrow>
     e = Error ports_item_message \<or> (nullish item \<and> e = cannot_read ''host'' item)"
  by (auto simp: port_item_def split: if_splits)

lemma builder_Inl:
  assumes "processCreateContainerOptions render options run detach = Inl e"
  shows "thrown_by_builder e \<or> (\<exists>k item. nullish item \<and> e = cannot_read k item)"
proof -
  have health: "push_health options args = Inl e \<Longrightarrow> thrown_by_builder e" for args
    by (auto simp: push_health_def Let_def thrown_by_builder_def split: if_splits)
  have volumes: "push_volumes render options args = Inl e \<Longrightarrow>
      thrown_by_builder e \<or> (\<exists>k item. nullish item \<and> e = cannot_read k item)" for args
    by (auto simp: push_volumes_def Let_def thrown_by_builder_def split: if_splits
        dest!: forEach_Inl volume_item_Inl)
  have environment: "push_environment render options args = Inl e \<Longrightarrow>
      thrown_by_builder e \<or> (\<exists>k item. nullish item \<and> e = cannot_read k item)" for args
    by (auto simp: push_environment_def Let_def thrown_by_builder_def split: if_splits
        dest!: forEach_Inl environment_item_Inl)
  have ports: "push_ports render options args = Inl e \<Longrightarrow>
      thrown_by_builder e \<or> (\<exists>k item. nullish item \<and> e = cannot_read k item)" for args
    by (auto simp: push_ports_def Let_def thrown_by_builder_def split: if_splits
        dest!: forEach_Inl port_item_Inl)
  have commands: "push_image_commands options args = Inl e \<Longrightarrow> thrown_by_builder e" for args
    by (auto simp: push_image_commands_def Let_def thrown_by_builder_def split: if_splits)
  have image: "thrown_by_builder (Error image_message)"
    by (simp add: thrown_by_builder_def)
  from assms have "e = Error image_message \<or>
      and_then (push_options render options (base_args run detach)) (push_image_commands options) = Inl e"
    by (simp add: processCreateContainerOptions_def Let_def split: if_splits)
  then consider "e = Error image_message"
    | "push_options render options (base_args run detach) = Inl e"
    | args where "push_image_commands options args = Inl e"
    unfolding and_then_Inl_iff by blast
  then show ?thesis
  proof cases
    case 1
    with image show ?thesis by simp
  next
    case 2
    then show ?thesis
      unfolding push_options_def and_then_Inl_iff
      using health volumes environment ports by blast
  next
    case 3
    with commands show ?thesis by simp
  qed
qed

lemma examples_carried:
  "carries_example image_message" "carries_example volumes_array_message"
  "carries_example volumes_item_message" "carries_example environment_array_message"
  "carries_example environment_item_message" "carries_example ports_array_message"
  "carries_example ports_item_message" "carries_example network_name_message"
  by (simp_all add: carries_example_def image_message_def volumes_array_message_def
      volumes_item_message_def environment_array_message_def environment_item_message_def
      ports_array_message_def ports_item_message_def network_name_message_def
      volumes_example_def environment_example_def ports_example_def)

lemma examples_missing:
  "\<not> carries_example health_command_message" "\<not> carries_example health_retries_message"
  "\<not> carries_example commands_message"
  by (simp_all add: carries_example_def health_command_message_def health_retries_message_def
      commands_message_def)

subsection \<open>Fields the builder reads\<close>

lemma push_options_cong:
  assumes "\<And>k. k \<in> set [''name'', ''network'', ''health'', ''rm'', ''volumes'',
      ''environmentVariables'', ''exposePorts''] \<Longrightarrow> field a k = field b k"
  shows "push_options render a args = push_options render b args"
proof -
  from assms have "field a ''name'' = field b ''name''" "field a ''network'' = field b ''network''"
    "field a ''health'' = field b ''health''" "field a ''rm'' = field b ''rm''"
    "field a ''volumes'' = field b ''volumes''"
    "field a ''environmentVariables'' = field b ''environmentVariables''"
    "field a ''exposePorts'' = field b ''exposePorts''"
    by simp_all
  then have "push_name a = push_name b" "push_network a = push_network b"
    "push_health a = push_health b" "push_rm a = push_rm b"
    "push_volumes render a = push_volumes render b"
    "push_environment render a = push_environment render b"
    "push_ports render a = push_ports render b"
    by (simp_all add: fun_eq_iff push_name_def push_network_def push_health_def push_rm_def
        push_volumes_def push_environment_def push_ports_def)
  then show ?thesis
    by (simp add: push_options_def)
qed

lemma field_delete_prop:
  "field (delete_prop v k) k' = (if k' = k then JUndefined else field v k')"
  by (cases v) (simp_all add: delete_conv')

lemma truthy_delete_prop: "truthy (delete_prop v k) = truthy v"
  by (cases v) simp_all

lemma builder_without_commands:
  assumes "provided options ''commands''" and "\<not> is_array (field options ''commands'')"
  shows "processCreateContainerOptions render (delete_prop options ''commands'') run detach =
     (if \<not> truthy (field options ''image'') then Inl (Error image_message)
      else and_then (push_options render options (base_args run detach))
             (\<lambda>args. Inr (args @ [field options ''image''])))"
    and "processCreateContainerOptions render options run detach =
     (if \<not> truthy (field options ''image'') then Inl (Error image_message)
      else and_then (push_options render options (base_args run detach))
             (\<lambda>args. Inl (TypeError commands_message)))"
proof -
  from assms(1) have t: "truthy options" by (cases options) (simp_all add: provided_def)
  have "push_options render (delete_prop options ''commands'') args = push_options render options args"
    for args
    by (rule push_options_cong) (auto simp: field_delete_prop)
  moreover have "push_image_commands (delete_prop options ''commands'') =
      (\<lambda>args. Inr (args @ [field options ''image'']))"
    by (rule ext) (simp add: push_image_commands_def Let_def field_delete_prop)
  ultimately show "processCreateContainerOptions render (delete_prop options ''commands'') run detach =
     (if \<not> truthy (field options ''image'') then Inl (Error image_message)
      else and_then (push_options render options (base_args run detach))
             (\<lambda>args. Inr (args @ [field options ''image''])))"
    using t
    by (simp add: processCreateContainerOptions_def Let_def truthy_delete_prop field_delete_prop)
  have "push_image_commands options = (\<lambda>args. Inl (TypeError commands_message))"
    using assms by (intro ext) (simp add: push_image_commands_def Let_def provided_def)
  with t show "processCreateContainerOptions render options run detach =
     (if \<not> truthy (field options ''image'') then Inl (Error image_message)
      else and_then (push_options render options (base_args run detach))
             (\<lambda>args. Inl (TypeError commands_message)))"
    by (simp add: processCreateContainerOptions_def Let_def)
qed

lemma push_health_agree:
  assumes "same_if_provided (field a ''health'') (field b ''health'') \<or>
     truthy (field a ''health'') \<and> truthy (field b ''health'') \<and>
     (\<forall>k. same_if_provided (field (field a ''health'') k) (field (field b ''health'') k))"
  shows "push_health a = push_health b"
proof -
  let ?ha = "field a ''health''" and ?hb = "field b ''health''"
  from assms consider "?ha = ?hb" | "\<not> truthy ?ha" "\<not> truthy ?hb"
    | "truthy ?ha" "truthy ?hb" "\<forall>k. same_if_provided (field ?ha k) (field ?hb k)"
    by (auto simp: same_if_provided_def)
  then show ?thesis
  proof cases
    case 1
    then show ?thesis by (simp add: fun_eq_iff push_health_def)
  next
    case 2
    then show ?thesis by (simp add: fun_eq_iff push_health_def)
  next
    case 3
    from 3(3) have "same_if_provided (field ?ha ''command'') (field ?hb ''command'')"
      "same_if_provided (field ?ha ''interval'') (field ?hb ''interval'')"
      "same_if_provided (field ?ha ''retries'') (field ?hb ''retries'')"
      "same_if_provided (field ?ha ''startPeriod'') (field ?hb ''startPeriod'')"
      "same_if_provided (field ?ha ''timeout'') (field ?hb ''timeout'')"
      by blast+
    with 3(1,2) show ?thesis
      unfolding same_if_provided_def fun_eq_iff push_health_def Let_def
      by (elim disjE conjE) simp_all
  qed
qed

lemma builder_agree:
  assumes "truthy a = truthy b"
    and "\<And>k. k \<noteq> ''health'' \<Longrightarrow> same_if_provided (field a k) (field b k)"
    and "same_if_provided (field a ''health'') (field b ''health'') \<or>
     truthy (field a ''health'') \<and> truthy (field b ''health'') \<and>
     (\<forall>k. same_if_provided (field (field a ''health'') k) (field (field b ''health'') k))"
  shows "processCreateContainerOptions render a run detach =
         processCreateContainerOptions render b run detach"
proof -
  from assms(2) have same: "same_if_provided (field a ''image'') (field b ''image'')"
    "same_if_provided (field a ''name'') (field b ''name'')"
    "same_if_provided (field a ''network'') (field b ''network'')"
    "same_if_provided (field a ''rm'') (field b ''rm'')"
    "same_if_provided (field a ''volumes'') (field b ''volumes'')"
    "same_if_provided (field a ''environmentVariables'') (field b ''environmentVariables'')"
    "same_if_provided (field a ''exposePorts'') (field b ''exposePorts'')"
    "same_if_provided (field a ''commands'') (field b ''commands'')"
    by simp_all
  have blocks: "push_name a = push_name b" "push_network a = push_network b"
    "push_rm a = push_rm b" "push_volumes render a = push_volumes render b"
    "push_environment render a = push_environment render b"
    "push_ports render a = push_ports render b"
    using same(2) apply (auto simp: same_if_provided_def fun_eq_iff push_name_def) [1]
    using same(3) apply (auto simp: same_if_provided_def fun_eq_iff push_network_def) [1]
    using same(4) apply (auto simp: same_if_provided_def fun_eq_iff push_rm_def) [1]
    using same(5) apply (auto simp: same_if_provided_def fun_eq_iff push_volumes_def) [1]
    using same(6) apply (auto simp: same_if_provided_def fun_eq_iff push_environment_def) [1]
    using same(7) apply (auto simp: same_if_provided_def fun_eq_iff push_ports_def) [1]
    done
  with push_health_agree [OF assms(3)]
  have options: "push_options render a = push_options render b"
    by (simp add: fun_eq_iff push_options_def)
  show ?thesis
  proof (cases "truthy (field a ''image'')")
    case True
    with same(1) have image: "field a ''image'' = field b ''image''"
      by (auto simp: same_if_provided_def)
    from same(8) image have "push_image_commands a = push_image_commands b"
      by (auto simp: same_if_provided_def fun_eq_iff push_image_commands_def Let_def)
    with options image assms(1) show ?thesis
      by (simp add: processCreateContainerOptions_def Let_def)
  next
    case False
    with same(1) have "\<not> truthy (field b ''image'')"
      by (auto simp: same_if_provided_def)
    with False show ?thesis
      by (simp add: processCreateContainerOptions_def Let_def)
  qed
qed

lemma falsy_field_absent:
  assumes "\<not> truthy v"
  shows "processCreateContainerOptions render (set_prop options k v) run detach =
         processCreateContainerOptions render (delete_prop options k) run detach"
proof (cases options)
  case (JObj fs)
  show ?thesis unfolding JObj
    using assms
    by (intro builder_agree)
       (auto simp: same_if_provided_def field_update field_delete simp del: field.simps)
qed simp_all

lemma falsy_health_field_absent:
  assumes "\<not> truthy v"
  shows "processCreateContainerOptions render (set_prop options ''health'' (set_prop health k v)) run detach =
         processCreateContainerOptions render (set_prop options ''health'' (delete_prop health k)) run detach"
proof (cases options)
  case options: (JObj fs)
  show ?thesis
  proof (cases health)
    case (JObj hs)
    show ?thesis unfolding options JObj
      using assms
      by (intro builder_agree)
         (auto simp: same_if_provided_def field_update field_delete simp del: field.simps)
  qed simp_all
qed simp_all

subsection \<open>Rejected entries\<close>

lemma forEach_bad_last:
  assumes "\<And>item args a. f item args = Inr a \<longleftrightarrow> ok item \<and> a = args @ g item"
    and "list_all ok items" and "\<And>args. f bad args = Inl e"
  shows "forEach f (items @ [bad]) args = Inl e"
  using assms(2)
proof (induction items arbitrary: args)
  case Nil
  show ?case by (simp add: assms(3))
next
  case (Cons item items)
  then have "f item args = Inr (args @ g item)" by (simp add: assms(1))
  with Cons show ?case by simp
qed

lemma field_with_entry:
  "field (with_entry (JObj fs) k entry) k' =
     (if k' = k then JArr (elements (field (JObj fs) k) @ [entry]) else field (JObj fs) k')"
  by (simp add: with_entry_def field_update del: field.simps)

lemma truthy_with_entry: "truthy (with_entry (JObj fs) k entry)"
  by (simp add: with_entry_def)

lemma list_valued_elements:
  "list_valued options k a b \<Longrightarrow> list_all (has_pair a b) (elements (field options k))"
  by (cases "truthy (field options k)") (simp_all add: list_valued_def provided_def elements_falsy)

lemma bad_entry_rejected:
  assumes "accepted options" and "\<not> nullish bad"
  shows "\<not> has_pair ''host'' ''docker'' bad \<Longrightarrow>
      processCreateContainerOptions render (with_entry options ''volumes'' bad) run detach =
        Inl (Error volumes_item_message)"
    and "\<not> has_pair ''name'' ''value'' bad \<Longrightarrow>
      processCreateContainerOptions render (with_entry options ''environmentVariables'' bad) run detach =
        Inl (Error environment_item_message)"
    and "\<not> has_pair ''host'' ''docker'' bad \<Longrightarrow>
      processCreateContainerOptions render (with_entry options ''exposePorts'' bad) run detach =
        Inl (Error ports_item_message)"
proof -
  from assms(1) obtain fs where fs: "options = JObj fs"
    by (auto simp: accepted_def provided_def dest: truthy_field_object)
  from assms(1) have image: "truthy (field options ''image'')"
    by (simp add: accepted_def provided_def)
  from assms(1) have health: "push_health options X = Inr (X @ health_tokens (field options ''health''))"
    for X by (simp add: push_health_Inr_iff accepted_def)
  from assms(1) have volumes: "push_volumes render options X =
      Inr (X @ concat (map (mount_pair render) (elements (field options ''volumes''))))" for X
    by (simp add: push_volumes_Inr_iff accepted_def)
  from assms(1) have environment: "push_environment render options X =
      Inr (X @ concat (map (environment_pair render) (elements (field options ''environmentVariables''))))"
    for X by (simp add: push_environment_Inr_iff accepted_def)
  from assms(1) have lists: "list_all (has_pair ''host'' ''docker'') (elements (field options ''volumes''))"
    "list_all (has_pair ''name'' ''value'') (elements (field options ''environmentVariables''))"
    "list_all (has_pair ''host'' ''docker'') (elements (field options ''exposePorts''))"
    by (simp_all add: accepted_def list_valued_elements)
  have same: "push_name (with_entry options k bad) = push_name options"
    "push_network (with_entry options k bad) = push_network options"
    "push_health (with_entry options k bad) = push_health options"
    "push_rm (with_entry options k bad) = push_rm options"
    if "k \<in> set [''volumes'', ''environmentVariables'', ''exposePorts'']" for k
    using that unfolding fs
    by (auto simp: fun_eq_iff push_name_def push_network_def push_health_def push_rm_def
        field_with_entry simp del: field.simps)
  have truthy: "truthy (with_entry options k bad)" "truthy (field (with_entry options k bad) ''image'')"
    if "k \<in> set [''volumes'', ''environmentVariables'', ''exposePorts'']" for k
    using that image unfolding fs
    by (auto simp: field_with_entry truthy_with_entry simp del: field.simps)
  {
    assume bad: "\<not> has_pair ''host'' ''docker'' bad"
    with assms(2) have "volume_item render bad X = Inl (Error volumes_item_message)" for X
      by (auto simp: volume_item_def has_pair_def provided_def)
    from forEach_bad_last [of "volume_item render", OF volume_item_Inr_iff lists(1) this]
    have "push_volumes render (with_entry options ''volumes'' bad) X = Inl (Error volumes_item_message)"
      for X unfolding fs
      by (simp add: push_volumes_def field_with_entry del: field.simps)
    with health show "processCreateContainerOptions render (with_entry options ''volumes'' bad) run detach =
        Inl (Error volumes_item_message)"
      by (simp add: processCreateContainerOptions_def Let_def truthy push_options_def same and_then_def)
  }
  {
    assume bad: "\<not> has_pair ''name'' ''value'' bad"
    with assms(2) have "environment_item render bad X = Inl (Error environment_item_message)" for X
      by (auto simp: environment_item_def has_pair_def provided_def)
    from forEach_bad_last [of "environment_item render", OF environment_item_Inr_iff lists(2) this]
    have "push_environment render (with_entry options ''environmentVariables'' bad) X =
        Inl (Error environment_item_message)"
      for X unfolding fs
      by (simp add: push_environment_def field_with_entry del: field.simps)
    moreover have "push_volumes render (with_entry options ''environmentVariables'' bad) =
        push_volumes render options"
      unfolding fs by (simp add: fun_eq_iff push_volumes_def field_with_entry del: field.simps)
    ultimately show "processCreateContainerOptions render
        (with_entry options ''environmentVariables'' bad) run detach =
        Inl (Error environment_item_message)"
      using health volumes
      by (simp add: processCreateContainerOptions_def Let_def truthy push_options_def same and_then_def)
  }
  {
    assume bad: "\<not> has_pair ''host'' ''docker'' bad"
    with assms(2) have "port_item render bad X = Inl (Error ports_item_message)" for X
      by (auto simp: port_item_def has_pair_def provided_def)
    from forEach_bad_last [of "port_item render", OF port_item_Inr_iff lists(3) this]
    have "push_ports render (with_entry options ''exposePorts'' bad) X = Inl (Error ports_item_message)"
      for X unfolding fs
      by (simp add: push_ports_def field_with_entry del: field.simps)
    moreover have "push_volumes render (with_entry options ''exposePorts'' bad) =
        push_volumes render options"
      "push_environment render (with_entry options ''exposePorts'' bad) =
        push_environment render options"
      unfolding fs
      by (simp_all add: fun_eq_iff push_volumes_def push_environment_def field_with_entry
          del: field.simps)
    ultimately show "processCreateContainerOptions render (with_entry options ''exposePorts'' bad) run detach =
        Inl (Error ports_item_message)"
      using health volumes environment
      by (simp add: processCreateContainerOptions_def Let_def truthy push_options_def same and_then_def)
  }
qed

section \<open>The claims\<close>



text \<open>
  Claim C2, as amended. With \<^verbatim>\<open>run = false\<close>, the tokens the builder returns start with
  \<^verbatim>\<open>container create\<close> and end with the image followed by the commands, so they end with
  the image when no commands are provided; and they hold the token \<^verbatim>\<open>--detach\<close> only where
  the configuration supplies that very string as its name, its network, a health field,
  its image or a command: the builder adds none.
\<close>

theorem create_tokens:
  assumes "processCreateContainerOptions render options False detach = Inr args"
  shows "args = [JStr ''container'', JStr ''create''] @ option_tokens render options @
           field options ''image'' # elements (field options ''commands'') \<and>
         (\<not> provided options ''commands'' \<longrightarrow> last args = field options ''image'') \<and>
         (JStr ''--detach'' \<notin> set (supplied_values options) \<longrightarrow> JStr ''--detach'' \<notin> set args)"
proof -
  from assms have args: "args = [JStr ''container'', JStr ''create''] @ option_tokens render options @
      field options ''image'' # elements (field options ''commands'')"
    by (simp add: builder_Inr_iff base_tokens_def)
  have "elements (field options ''commands'') = []" if "\<not> provided options ''commands''"
    using that by (simp add: provided_def elements_falsy)
  with args have "\<not> provided options ''commands'' \<longrightarrow> last args = field options ''image''"
    by simp
  moreover have "JStr ''--detach'' \<notin> set args" if "JStr ''--detach'' \<notin> set (supplied_values options)"
    using that detach_in_option_tokens [of render options] unfolding args
    by (auto simp: supplied_values_def)
  ultimately show ?thesis using args by blast
qed

theorem create_tokens_witness:
  "processCreateContainerOptions decimal full_options False True =
     Inr ([JStr ''container'', JStr ''create''] @ option_tokens decimal full_options @
          [JStr ''wordpress:latest'', JStr ''ls'', JStr ''-la'']) \<and>
   processCreateContainerOptions decimal image_only False True =
     Inr [JStr ''container'', JStr ''create'', JStr ''hello-world''] \<and>
   \<not> provided image_only ''commands'' \<and>
   last [JStr ''container'', JStr ''create'', JStr ''hello-world''] = JStr ''hello-world'' \<and>
   JStr ''--detach'' \<notin> set (supplied_values image_only) \<and>
   JStr ''--detach'' \<notin> set [JStr ''container'', JStr ''create'', JStr ''hello-world'']"
proof -
  have full: "processCreateContainerOptions decimal full_options False True =
     Inr ([JStr ''container'', JStr ''create''] @ option_tokens decimal full_options @
          [JStr ''wordpress:latest'', JStr ''ls'', JStr ''-la''])"
    by (simp add: builder_defs full_options_def option_tokens_def flag_pair_def health_tokens_def
        remove_flag_def mount_pair_def environment_pair_def port_pair_def Let_def)
  have only: "processCreateContainerOptions decimal image_only False True =
     Inr [JStr ''container'', JStr ''create'', JStr ''hello-world'']"
    by (simp add: builder_defs image_only_def Let_def)
  from create_tokens [OF only] full only show ?thesis
    by (simp add: provided_def image_only_def supplied_values_def)
qed

text \<open>
  Claim C2 as stated fails: with the single command \<^verbatim>\<open>--detach\<close> the tokens for
  \<^verbatim>\<open>run = false\<close> end with that command, not with the image, and hold a \<^verbatim>\<open>--detach\<close>.
\<close>

theorem create_tokens_counterexample:
  "processCreateContainerOptions decimal detach_command False True =
     Inr [JStr ''container'', JStr ''create'', JStr ''hello-world'', JStr ''--detach''] \<and>
   field detach_command ''image'' = JStr ''hello-world'' \<and>
   last [JStr ''container'', JStr ''create'', JStr ''hello-world'', JStr ''--detach''] \<noteq> JStr ''hello-world'' \<and>
   JStr ''--detach'' \<in> set [JStr ''container'', JStr ''create'', JStr ''hello-world'', JStr ''--detach'']"
  by (simp add: builder_defs detach_command_def Let_def)

text \<open>
  Claim C3, as amended. \<^verbatim>\<open>RunInContainer\<close> throws a \<^verbatim>\<open>TypeError\<close> before any process is
  spawned when \<^verbatim>\<open>commands\<close> is not provided or \<^verbatim>\<open>rm\<close> is not set, both by truthiness,
  whatever the other fields. An empty list of commands is truthy and passes the check:
  with \<^verbatim>\<open>rm\<close> set and a configuration the builder accepts, the process is spawned, with
  no token after the image.
\<close>

theorem RunInContainer_requirements:
  "(\<not> provided options ''commands'' \<or> \<not> provided options ''rm'' \<longrightarrow>
      RunInContainer render docker options =
        Inl (if nullish options then cannot_read ''commands'' options
             else if \<not> provided options ''commands'' then TypeError run_commands_message
             else TypeError run_rm_message)) \<and>
   (field options ''commands'' = JArr [] \<and> provided options ''rm'' \<and> accepted options \<longrightarrow>
      (\<exists>c. RunInContainer render docker options = Inr c \<and>
           argv c = [JStr ''container'', JStr ''run''] @ option_tokens render options @
                    [field options ''image'']))"
proof (intro conjI impI)
  assume "\<not> provided options ''commands'' \<or> \<not> provided options ''rm''"
  then show "RunInContainer render docker options =
        Inl (if nullish options then cannot_read ''commands'' options
             else if \<not> provided options ''commands'' then TypeError run_commands_message
             else TypeError run_rm_message)"
    by (auto simp: RunInContainer_def get_def and_then_def provided_def)
next
  assume a: "field options ''commands'' = JArr [] \<and> provided options ''rm'' \<and> accepted options"
  then have "\<not> nullish options" by (auto dest: provided_not_nullish)
  moreover from a have "processCreateContainerOptions render options True False =
      Inr ([JStr ''container'', JStr ''run''] @ option_tokens render options @ [field options ''image''])"
    by (simp add: builder_Inr_iff base_tokens_def)
  ultimately show "\<exists>c. RunInContainer render docker options = Inr c \<and>
           argv c = [JStr ''container'', JStr ''run''] @ option_tokens render options @
                    [field options ''image'']"
    using a by (simp add: RunInContainer_def get_Inr and_then_def provided_def)
qed

theorem RunInContainer_requirements_witness:
  "\<not> provided image_only ''commands'' \<and>
   RunInContainer decimal (prints ''hi\<newline>'') image_only = Inl (TypeError run_commands_message) \<and>
   field empty_commands ''commands'' = JArr [] \<and> provided empty_commands ''rm'' \<and>
   accepted empty_commands \<and>
   RunInContainer decimal (prints ''hi\<newline>'') empty_commands =
     Inr \<lparr>argv = [JStr ''container'', JStr ''run'', JStr ''--rm'', JStr ''hello-world''],
          promise = Resolved (JObj [(''stdout'', JStr ''hi\<newline>''), (''stderr'', JStr [])]),
          argument = empty_commands\<rparr>"
proof -
  have a: "\<not> provided image_only ''commands''" by (simp add: provided_def image_only_def)
  have b: "field empty_commands ''commands'' = JArr [] \<and> provided empty_commands ''rm'' \<and>
      accepted empty_commands"
    by (simp add: empty_commands_def provided_def accepted_def health_ok_def list_valued_def)
  have c: "RunInContainer decimal (prints ''hi\<newline>'') empty_commands =
     Inr \<lparr>argv = [JStr ''container'', JStr ''run'', JStr ''--rm'', JStr ''hello-world''],
          promise = Resolved (JObj [(''stdout'', JStr ''hi\<newline>''), (''stderr'', JStr [])]),
          argument = empty_commands\<rparr>"
    by (simp add: RunInContainer_def get_def builder_defs promise_defs run_output_def
        empty_commands_def Let_def)
  from RunInContainer_requirements [of image_only decimal "prints ''hi\<newline>''"] a b c
  show ?thesis by (simp add: image_only_def)
qed

text \<open>
  Claim C3 as stated fails: with an empty list of commands \<^verbatim>\<open>RunInContainer\<close> throws
  nothing and spawns the process.
\<close>

theorem RunInContainer_counterexample:
  "field empty_commands ''commands'' = JArr [] \<and>
   RunInContainer decimal (prints ''hi\<newline>'') empty_commands =
     Inr \<lparr>argv = [JStr ''container'', JStr ''run'', JStr ''--rm'', JStr ''hello-world''],
          promise = Resolved (JObj [(''stdout'', JStr ''hi\<newline>''), (''stderr'', JStr [])]),
          argument = empty_commands\<rparr>"
  by (simp add: RunInContainer_def get_def builder_defs promise_defs run_output_def
      empty_commands_def Let_def)

text \<open>
  Claim C4, as amended. When a creating operation succeeds, the id of the container or
  network it resolves to, and the name of the volume, is the accumulated stdout of the
  process with its first line feed removed, and nothing else: no part of it comes from
  the configuration. For a stdout of one line, with or without a line feed after it,
  that is the line; white space around the line is kept.
\<close>

theorem created_id:
  "(CreateContainer render docker options run detach = Inr c \<and> promise c = Resolved e \<longrightarrow>
      (\<exists>out err. docker (argv c) = Exited 0 out err \<and> entity_id e = JStr (replace_newline out))) \<and>
   (CreateVolume docker name = Inr c' \<and> promise c' = Resolved e' \<longrightarrow>
      (\<exists>out err. docker (argv c') = Exited 0 out err \<and> entity_name e' = JStr (replace_newline out))) \<and>
   (CreateNetwork docker arg = Inr c'' \<and> promise c'' = Resolved e'' \<longrightarrow>
      (\<exists>out err. docker (argv c'') = Exited 0 out err \<and> entity_id e'' = JStr (replace_newline out))) \<and>
   (CHR 0x0A \<notin> set line \<longrightarrow>
      replace_newline (line @ [CHR 0x0A]) = line \<and> replace_newline line = line)"
proof (intro conjI impI)
  assume "CreateContainer render docker options run detach = Inr c \<and> promise c = Resolved e"
  from CreateContainer_Resolved [OF conjunct1 [OF this] conjunct2 [OF this]]
  show "\<exists>out err. docker (argv c) = Exited 0 out err \<and> entity_id e = JStr (replace_newline out)"
    by (auto simp: container_created_object Let_def entity_id_def field_update simp del: field.simps)
next
  assume "CreateVolume docker name = Inr c' \<and> promise c' = Resolved e'"
  from CreateVolume_Resolved [OF conjunct1 [OF this] conjunct2 [OF this]]
  show "\<exists>out err. docker (argv c') = Exited 0 out err \<and> entity_name e' = JStr (replace_newline out)"
    by (auto simp: entity_name_def)
next
  assume "CreateNetwork docker arg = Inr c'' \<and> promise c'' = Resolved e''"
  from CreateNetwork_Resolved [OF conjunct1 [OF this] conjunct2 [OF this]]
  show "\<exists>out err. docker (argv c'') = Exited 0 out err \<and> entity_id e'' = JStr (replace_newline out)"
    by (auto simp: network_created_object Let_def entity_id_def field_update simp del: field.simps)
qed (simp_all add: replace_newline_line)

theorem created_id_witness:
  "CreateContainer decimal (prints ''4f2a\<newline>'') image_only None None =
     Inr \<lparr>argv = [JStr ''container'', JStr ''create'', JStr ''hello-world''],
          promise = Resolved (Container (JObj [(''image'', JStr ''hello-world''),
            (''id'', JStr ''4f2a''), (''status'', JStr ''created'')])),
          argument = JObj [(''image'', JStr ''hello-world''),
            (''id'', JStr ''4f2a''), (''status'', JStr ''created'')]\<rparr> \<and>
   CreateVolume (prints ''4f2a\<newline>'') (JStr ''my-vol'') =
     Inr \<lparr>argv = [JStr ''volume'', JStr ''create'', JStr ''my-vol''],
          promise = Resolved (Volume (JObj [(''name'', JStr ''4f2a''), (''status'', JStr ''alive'')])),
          argument = JStr ''my-vol''\<rparr> \<and>
   CreateNetwork (prints ''4f2a\<newline>'') (JStr ''net1'') =
     Inr \<lparr>argv = [JStr ''network'', JStr ''create'', JStr ''net1''],
          promise = Resolved (Network (JObj [(''name'', JStr ''net1''),
            (''id'', JStr ''4f2a''), (''status'', JStr ''alive'')])),
          argument = JStr ''net1''\<rparr> \<and>
   CHR 0x0A \<notin> set ''4f2a'' \<and> replace_newline ''4f2a\<newline>'' = ''4f2a'' \<and>
   (\<exists>out err. prints ''4f2a\<newline>'' [JStr ''container'', JStr ''create'', JStr ''hello-world''] =
        Exited 0 out err \<and>
      entity_id (Container (JObj [(''image'', JStr ''hello-world''),
            (''id'', JStr ''4f2a''), (''status'', JStr ''created'')])) = JStr (replace_newline out))"
proof -
  let ?e = "Container (JObj [(''image'', JStr ''hello-world''),
            (''id'', JStr ''4f2a''), (''status'', JStr ''created'')])"
  let ?c = "\<lparr>argv = [JStr ''container'', JStr ''create'', JStr ''hello-world''],
          promise = Resolved ?e,
          argument = JObj [(''image'', JStr ''hello-world''),
            (''id'', JStr ''4f2a''), (''status'', JStr ''created'')]\<rparr>"
  let ?e' = "Volume (JObj [(''name'', JStr ''4f2a''), (''status'', JStr ''alive'')])"
  let ?c' = "\<lparr>argv = [JStr ''volume'', JStr ''create'', JStr ''my-vol''],
          promise = Resolved ?e', argument = JStr ''my-vol''\<rparr>"
  let ?e'' = "Network (JObj [(''name'', JStr ''net1''),
            (''id'', JStr ''4f2a''), (''status'', JStr ''alive'')])"
  let ?c'' = "\<lparr>argv = [JStr ''network'', JStr ''create'', JStr ''net1''],
          promise = Resolved ?e'', argument = JStr ''net1''\<rparr>"
  have container: "CreateContainer decimal (prints ''4f2a\<newline>'') image_only None None = Inr ?c"
    by (simp add: CreateContainer_def builder_defs promise_defs container_created_def
        replace_newline_def image_only_def Let_def)
  have volume: "CreateVolume (prints ''4f2a\<newline>'') (JStr ''my-vol'') = Inr ?c'"
    by (simp add: CreateVolume_def promise_defs volume_created_def replace_newline_def Let_def)
  have network: "CreateNetwork (prints ''4f2a\<newline>'') (JStr ''net1'') = Inr ?c''"
    by (simp add: CreateNetwork_def ProcessCreateNetworkOption_def and_then_def promise_defs
        network_created_def replace_newline_def Let_def)
  have line: "CHR 0x0A \<notin> set ''4f2a''" by simp
  from created_id [of decimal "prints ''4f2a\<newline>''" image_only None None ?c ?e
      "JStr ''my-vol''" ?c' ?e' "JStr ''net1''" ?c'' ?e'' "''4f2a''"] container volume network line
  show ?thesis by simp
qed

text \<open>
  Claim C4 as stated fails: a stdout that ends with a carriage return and a line feed
  gives a name that keeps the carriage return, where the trimmed stdout has none.
\<close>

theorem created_id_counterexample:
  "CreateVolume (prints (''my-vol'' @ [CHR 0x0D, CHR 0x0A])) (JStr ''my-vol'') =
     Inr \<lparr>argv = [JStr ''volume'', JStr ''create'', JStr ''my-vol''],
          promise = Resolved (Volume (JObj [(''name'', JStr (''my-vol'' @ [CHR 0x0D])),
            (''status'', JStr ''alive'')])),
          argument = JStr ''my-vol''\<rparr> \<and>
   trimmed (''my-vol'' @ [CHR 0x0D, CHR 0x0A]) = ''my-vol'' \<and>
   entity_name (Volume (JObj [(''name'', JStr (''my-vol'' @ [CHR 0x0D])), (''status'', JStr ''alive'')]))
     \<noteq> JStr (trimmed (''my-vol'' @ [CHR 0x0D, CHR 0x0A]))"
  by (simp add: CreateVolume_def promise_defs volume_created_def replace_newline_def Let_def
      trimmed_def is_space_def entity_name_def)

text \<open>
  Claim C5. When \<^verbatim>\<open>CreateContainer\<close> succeeds, the status of the container it resolves
  to is \<^verbatim>\<open>removed\<close> if \<^verbatim>\<open>rm\<close> was requested, whatever the run flag; otherwise \<^verbatim>\<open>started\<close>
  if \<^verbatim>\<open>run\<close>, otherwise \<^verbatim>\<open>created\<close>.
\<close>

theorem CreateContainer_status:
  assumes "CreateContainer render docker options run detach = Inr c"
    and "promise c = Resolved e"
  shows "entity_status e =
    JStr (if truthy (field options ''rm'') then ''removed''
          else if default_to False run then ''started'' else ''created'')"
proof -
  from CreateContainer_Resolved [OF assms] obtain out err fs where
    "options = JObj fs" "e = fst (container_created (default_to False run) out err options)"
    by blast
  then show ?thesis
    by (simp add: container_created_object Let_def entity_status_def field_update del: field.simps)
qed

theorem CreateContainer_status_witness:
  "CreateContainer decimal (prints ''4f2a\<newline>'') ephemeral (Some True) None =
     Inr \<lparr>argv = [JStr ''container'', JStr ''run'', JStr ''--detach'', JStr ''--rm'', JStr ''hello-world''],
          promise = Resolved (Container (JObj [(''image'', JStr ''hello-world''), (''rm'', JBool True),
            (''id'', JStr ''4f2a''), (''status'', JStr ''removed'')])),
          argument = JObj [(''image'', JStr ''hello-world''), (''rm'', JBool True),
            (''id'', JStr ''4f2a''), (''status'', JStr ''removed'')]\<rparr> \<and>
   entity_status (Container (JObj [(''image'', JStr ''hello-world''), (''rm'', JBool True),
            (''id'', JStr ''4f2a''), (''status'', JStr ''removed'')])) = JStr ''removed''"
proof -
  let ?e = "Container (JObj [(''image'', JStr ''hello-world''), (''rm'', JBool True),
            (''id'', JStr ''4f2a''), (''status'', JStr ''removed'')])"
  let ?c = "\<lparr>argv = [JStr ''container'', JStr ''run'', JStr ''--detach'', JStr ''--rm'', JStr ''hello-world''],
          promise = Resolved ?e,
          argument = JObj [(''image'', JStr ''hello-world''), (''rm'', JBool True),
            (''id'', JStr ''4f2a''), (''status'', JStr ''removed'')]\<rparr>"
  have call: "CreateContainer decimal (prints ''4f2a\<newline>'') ephemeral (Some True) None = Inr ?c"
    by (simp add: CreateContainer_def builder_defs promise_defs container_created_def
        replace_newline_def ephemeral_def Let_def)
  have settled: "promise ?c = Resolved ?e" by simp
  from CreateContainer_status [OF call settled] call show ?thesis
    by (simp add: ephemeral_def)
qed

text \<open>
  Claim C6, as amended. \<^verbatim>\<open>CreateNetwork\<close> turns a bare string \<open>s\<close> into the object
  \<^verbatim>\<open>{name: s}\<close>; it throws the configuration error of \<^verbatim>\<open>ProcessCreateNetworkOption\<close>
  when no name is provided and otherwise spawns \<^verbatim>\<open>network create\<close> with the name; on
  success it resolves to a network whose id is the stdout of the process with its first
  line feed removed, whose name is the supplied name and whose status is \<^verbatim>\<open>alive\<close>.
  The string \<^verbatim>\<open>net1\<close> and the stdout \<^verbatim>\<open>abc123\<close> with a line feed give the network with
  id \<^verbatim>\<open>abc123\<close>, name \<^verbatim>\<open>net1\<close> and status \<^verbatim>\<open>alive\<close>.
\<close>

theorem CreateNetwork_result:
  "(\<not> truthy (supplied_name arg) \<longrightarrow> CreateNetwork docker arg = Inl (Error network_name_message)) \<and>
   (truthy (supplied_name arg) \<longrightarrow>
      (\<exists>c. CreateNetwork docker arg = Inr c \<and>
           argv c = [JStr ''network'', JStr ''create'', supplied_name arg] \<and>
           (\<forall>out err. docker (argv c) = Exited 0 out err \<longrightarrow>
              (\<exists>options. promise c = Resolved (Network options) \<and>
                 field options ''id'' = JStr (replace_newline out) \<and>
                 field options ''name'' = supplied_name arg \<and>
                 field options ''status'' = JStr ''alive'')))) \<and>
   (s \<noteq> [] \<and> docker [JStr ''network'', JStr ''create'', JStr s] = Exited 0 out err \<longrightarrow>
      CreateNetwork docker (JStr s) =
        Inr \<lparr>argv = [JStr ''network'', JStr ''create'', JStr s],
             promise = Resolved (Network (JObj [(''name'', JStr s),
               (''id'', JStr (replace_newline out)), (''status'', JStr ''alive'')])),
             argument = JStr s\<rparr>)"
proof (intro conjI impI)
  assume "\<not> truthy (supplied_name arg)"
  then show "CreateNetwork docker arg = Inl (Error network_name_message)"
    by (cases arg)
       (auto simp: CreateNetwork_def ProcessCreateNetworkOption_def and_then_def Let_def
          supplied_name_def)
next
  assume t: "truthy (supplied_name arg)"
  let ?options = "if is_string arg then JObj [(''name'', arg)] else arg"
  let ?args = "[JStr ''network'', JStr ''create'', supplied_name arg]"
  let ?c = "spawn_and_return docker ?args network_created ?options"
  let ?call = "if is_string arg then ?c\<lparr>argument := arg\<rparr> else ?c"
  from t obtain fs where fs: "?options = JObj fs"
    by (cases arg) (auto simp: supplied_name_def)
  from t have name: "field ?options ''name'' = supplied_name arg" "truthy (field ?options ''name'')"
    by (auto simp: supplied_name_def)
  with fs have "ProcessCreateNetworkOption ?options = Inr ?args"
    by (auto simp: ProcessCreateNetworkOption_def Let_def)
  then have call: "CreateNetwork docker arg = Inr ?call"
    by (simp add: CreateNetwork_def and_then_def Let_def)
  have "\<exists>options. promise ?call = Resolved (Network options) \<and>
          field options ''id'' = JStr (replace_newline out) \<and>
          field options ''name'' = supplied_name arg \<and>
          field options ''status'' = JStr ''alive''"
    if "docker (argv ?call) = Exited 0 out err" for out err
  proof -
    from that have "docker ?args = Exited 0 out err" by (simp split: if_splits)
    then have "promise ?call = Resolved (fst (network_created out err ?options))"
      by (simp add: spawn_and_return_def Let_def ReturnPromise_success)
    with name(1) show ?thesis unfolding fs
      by (simp add: network_created_object Let_def field_update del: field.simps)
  qed
  with call show "\<exists>c. CreateNetwork docker arg = Inr c \<and>
           argv c = [JStr ''network'', JStr ''create'', supplied_name arg] \<and>
           (\<forall>out err. docker (argv c) = Exited 0 out err \<longrightarrow>
              (\<exists>options. promise c = Resolved (Network options) \<and>
                 field options ''id'' = JStr (replace_newline out) \<and>
                 field options ''name'' = supplied_name arg \<and>
                 field options ''status'' = JStr ''alive''))"
    by (intro exI [of _ ?call]) (simp split: if_splits)
next
  assume "s \<noteq> [] \<and> docker [JStr ''network'', JStr ''create'', JStr s] = Exited 0 out err"
  then show "CreateNetwork docker (JStr s) =
        Inr \<lparr>argv = [JStr ''network'', JStr ''create'', JStr s],
             promise = Resolved (Network (JObj [(''name'', JStr s),
               (''id'', JStr (replace_newline out)), (''status'', JStr ''alive'')])),
             argument = JStr s\<rparr>"
    by (simp add: CreateNetwork_def ProcessCreateNetworkOption_def and_then_def
        spawn_and_return_def ReturnPromise_success network_created_def Let_def)
qed

theorem CreateNetwork_result_witness:
  "\<not> truthy (supplied_name (JStr [])) \<and>
   CreateNetwork (prints ''abc123\<newline>'') (JStr []) = Inl (Error network_name_message) \<and>
   truthy (supplied_name (JStr ''net1'')) \<and>
   prints ''abc123\<newline>'' [JStr ''network'', JStr ''create'', JStr ''net1''] = Exited 0 ''abc123\<newline>'' [] \<and>
   CreateNetwork (prints ''abc123\<newline>'') (JStr ''net1'') =
     Inr \<lparr>argv = [JStr ''network'', JStr ''create'', JStr ''net1''],
          promise = Resolved (Network (JObj [(''name'', JStr ''net1''),
            (''id'', JStr ''abc123''), (''status'', JStr ''alive'')])),
          argument = JStr ''net1''\<rparr>"
proof -
  have run: "prints ''abc123\<newline>'' [JStr ''network'', JStr ''create'', JStr ''net1''] =
      Exited 0 ''abc123\<newline>'' []"
    by (simp add: prints_def)
  from CreateNetwork_result [of "JStr []" "prints ''abc123\<newline>''" "''net1''" "''abc123\<newline>''" "[]"]
    CreateNetwork_result [of "JStr ''net1''" "prints ''abc123\<newline>''" "''net1''" "''abc123\<newline>''" "[]"]
    run
  show ?thesis by (simp add: supplied_name_def replace_newline_def)
qed

text \<open>
  Claim C6 as stated fails: a stdout with two line feeds gives an id that keeps the
  second, where the trimmed stdout has none.
\<close>

theorem CreateNetwork_counterexample:
  "CreateNetwork (prints ''abc123\<newline>\<newline>'') (JStr ''net1'') =
     Inr \<lparr>argv = [JStr ''network'', JStr ''create'', JStr ''net1''],
          promise = Resolved (Network (JObj [(''name'', JStr ''net1''),
            (''id'', JStr ''abc123\<newline>''), (''status'', JStr ''alive'')])),
          argument = JStr ''net1''\<rparr> \<and>
   trimmed ''abc123\<newline>\<newline>'' = ''abc123'' \<and>
   entity_id (Network (JObj [(''name'', JStr ''net1''),
            (''id'', JStr ''abc123\<newline>''), (''status'', JStr ''alive'')]))
     \<noteq> JStr (trimmed ''abc123\<newline>\<newline>'')"
  by (simp add: CreateNetwork_def ProcessCreateNetworkOption_def and_then_def promise_defs
      network_created_def replace_newline_def Let_def trimmed_def is_space_def entity_id_def)

text \<open>
  Claim C7, as amended. Every exception of class \<^verbatim>\<open>Error\<close> the argument builder throws
  (no image, no network name, a list-valued option that is not an array or has an entry
  without its pair fields) carries a usage example in its message. The three exceptions
  of class \<^verbatim>\<open>TypeError\<close> it throws (a health block without command, retries that are not
  a whole number, commands that are not an array) carry none; beyond these the builder
  fails only where the engine does, on an entry that is \<^verbatim>\<open>null\<close> or \<^verbatim>\<open>undefined\<close>.
\<close>

theorem configuration_errors:
  "(processCreateContainerOptions render options run detach = Inl e \<longrightarrow>
      (\<exists>m. e = Error m \<and> carries_example m) \<or>
      e \<in> set [TypeError health_command_message, TypeError health_retries_message,
                TypeError commands_message] \<or>
      (\<exists>k item. nullish item \<and> e = cannot_read k item)) \<and>
   (ProcessCreateNetworkOption options' = Inl e' \<longrightarrow> (\<exists>m. e' = Error m \<and> carries_example m)) \<and>
   \<not> carries_example health_command_message \<and>
   \<not> carries_example health_retries_message \<and>
   \<not> carries_example commands_message"
proof (intro conjI impI)
  assume "processCreateContainerOptions render options run detach = Inl e"
  from builder_Inl [OF this]
  show "(\<exists>m. e = Error m \<and> carries_example m) \<or>
      e \<in> set [TypeError health_command_message, TypeError health_retries_message,
                TypeError commands_message] \<or>
      (\<exists>k item. nullish item \<and> e = cannot_read k item)"
    unfolding thrown_by_builder_def using examples_carried by auto
next
  assume "ProcessCreateNetworkOption options' = Inl e'"
  then have "e' = Error network_name_message"
    by (auto simp: ProcessCreateNetworkOption_def Let_def split: if_splits)
  with examples_carried show "\<exists>m. e' = Error m \<and> carries_example m" by simp
qed (simp_all add: examples_missing)

theorem configuration_errors_witness:
  "processCreateContainerOptions decimal (JObj []) False True = Inl (Error image_message) \<and>
   carries_example image_message \<and>
   ProcessCreateNetworkOption (JObj []) = Inl (Error network_name_message) \<and>
   carries_example network_name_message"
proof -
  have container: "processCreateContainerOptions decimal (JObj []) False True = Inl (Error image_message)"
    by (simp add: processCreateContainerOptions_def Let_def)
  have network: "ProcessCreateNetworkOption (JObj []) = Inl (Error network_name_message)"
    by (simp add: ProcessCreateNetworkOption_def Let_def)
  from configuration_errors [of decimal "JObj []" False True "Error image_message" "JObj []"
      "Error network_name_message"] container network
  show ?thesis by (simp add: cannot_read_def)
qed

text \<open>
  Claim C7 as stated fails: a health block without a command is rejected with a message
  that has no usage example.
\<close>

theorem configuration_errors_counterexample:
  "processCreateContainerOptions decimal no_health_command False True =
     Inl (TypeError health_command_message) \<and>
   \<not> carries_example health_command_message"
  by (simp add: builder_defs no_health_command_def Let_def carries_example_def
      health_command_message_def)

text \<open>
  Claim C8, as amended. A successful \<^verbatim>\<open>CreateContainer\<close> writes \<^verbatim>\<open>id\<close> and \<^verbatim>\<open>status\<close> into
  the options object of its caller, and the container it resolves to holds that very
  object; so does \<^verbatim>\<open>CreateNetwork\<close> given an object. Neither operation writes anything
  when the process fails, and \<^verbatim>\<open>CreateNetwork\<close> given a bare string writes to an object of
  its own: the caller's string is what it was.
\<close>

theorem options_written:
  "(CreateContainer render docker options run detach = Inr c \<and> promise c = Resolved e \<longrightarrow>
      (\<exists>out err. docker (argv c) = Exited 0 out err \<and>
         argument c =
           set_prop (set_prop options ''id'' (JStr (replace_newline out))) ''status''
             (JStr (if provided options ''rm'' then ''removed''
                    else if default_to False run then ''started'' else ''created''))) \<and>
      entity_options e = argument c) \<and>
   (CreateContainer render docker options run detach = Inr c \<and> (\<forall>e. promise c \<noteq> Resolved e) \<longrightarrow>
      argument c = options) \<and>
   (CreateNetwork docker arg = Inr c' \<and> promise c' = Resolved e' \<and> \<not> is_string arg \<longrightarrow>
      (\<exists>out err. docker (argv c') = Exited 0 out err \<and>
         argument c' =
           set_prop (set_prop arg ''id'' (JStr (replace_newline out))) ''status'' (JStr ''alive'')) \<and>
      entity_options e' = argument c') \<and>
   (CreateNetwork docker arg = Inr c' \<and> (\<forall>e. promise c' \<noteq> Resolved e) \<longrightarrow> argument c' = arg) \<and>
   (CreateNetwork docker arg = Inr c' \<and> is_string arg \<longrightarrow> argument c' = arg)"
proof (intro conjI impI)
  assume a: "CreateContainer render docker options run detach = Inr c \<and> promise c = Resolved e"
  from CreateContainer_Resolved [OF conjunct1 [OF a] conjunct2 [OF a]]
  show "\<exists>out err. docker (argv c) = Exited 0 out err \<and>
         argument c =
           set_prop (set_prop options ''id'' (JStr (replace_newline out))) ''status''
             (JStr (if provided options ''rm'' then ''removed''
                    else if default_to False run then ''started'' else ''created''))"
    by (auto simp: container_created_object Let_def provided_def simp del: field.simps)
  from CreateContainer_Resolved [OF conjunct1 [OF a] conjunct2 [OF a]]
  show "entity_options e = argument c"
    by (auto simp: container_created_object Let_def simp del: field.simps)
next
  assume a: "CreateContainer render docker options run detach = Inr c \<and> (\<forall>e. promise c \<noteq> Resolved e)"
  then obtain args where
    "c = spawn_and_return docker args (container_created (default_to False run)) options"
    by (auto simp: CreateContainer_def Let_def and_then_Inr_iff)
  with a show "argument c = options"
    by (simp add: spawn_and_return_def Let_def ReturnPromise_not_Resolved)
next
  assume a: "CreateNetwork docker arg = Inr c' \<and> promise c' = Resolved e' \<and> \<not> is_string arg"
  then have call: "CreateNetwork docker arg = Inr c'" and settled: "promise c' = Resolved e'"
    and obj: "\<not> is_string arg" by simp_all
  from CreateNetwork_Resolved [OF call settled] obj
  show "\<exists>out err. docker (argv c') = Exited 0 out err \<and>
         argument c' =
           set_prop (set_prop arg ''id'' (JStr (replace_newline out))) ''status'' (JStr ''alive'')"
    by (auto simp: network_created_object Let_def)
  from CreateNetwork_Resolved [OF call settled] obj
  show "entity_options e' = argument c'"
    by (auto simp: network_created_object Let_def)
next
  assume a: "CreateNetwork docker arg = Inr c' \<and> (\<forall>e. promise c' \<noteq> Resolved e)"
  let ?options = "if is_string arg then JObj [(''name'', arg)] else arg"
  from a obtain args where
    c: "c' = (let c = spawn_and_return docker args network_created ?options
              in if is_string arg then c\<lparr>argument := arg\<rparr> else c)"
    by (auto simp: CreateNetwork_def Let_def and_then_Inr_iff)
  show "argument c' = arg"
  proof (cases "is_string arg")
    case True
    with c show ?thesis by (simp add: Let_def)
  next
    case False
    with a c have "\<forall>e. fst (ReturnPromise (docker args) network_created arg) \<noteq> Resolved e"
      by (simp add: spawn_and_return_def Let_def)
    with False c show ?thesis
      by (simp add: spawn_and_return_def Let_def ReturnPromise_not_Resolved)
  qed
next
  assume "CreateNetwork docker arg = Inr c' \<and> is_string arg"
  then show "argument c' = arg"
    by (auto simp: CreateNetwork_def Let_def and_then_Inr_iff)
qed

theorem options_written_witness:
  "CreateContainer decimal (prints ''4f2a\<newline>'') image_only None None =
     Inr \<lparr>argv = [JStr ''container'', JStr ''create'', JStr ''hello-world''],
          promise = Resolved (Container (JObj [(''image'', JStr ''hello-world''),
            (''id'', JStr ''4f2a''), (''status'', JStr ''created'')])),
          argument = JObj [(''image'', JStr ''hello-world''),
            (''id'', JStr ''4f2a''), (''status'', JStr ''created'')]\<rparr> \<and>
   CreateNetwork (prints ''4f2a\<newline>'') (JObj [(''name'', JStr ''net1'')]) =
     Inr \<lparr>argv = [JStr ''network'', JStr ''create'', JStr ''net1''],
          promise = Resolved (Network (JObj [(''name'', JStr ''net1''),
            (''id'', JStr ''4f2a''), (''status'', JStr ''alive'')])),
          argument = JObj [(''name'', JStr ''net1''),
            (''id'', JStr ''4f2a''), (''status'', JStr ''alive'')]\<rparr> \<and>
   \<not> is_string (JObj [(''name'', JStr ''net1'')]) \<and>
   CreateNetwork (prints ''4f2a\<newline>'') (JStr ''net1'') =
     Inr \<lparr>argv = [JStr ''network'', JStr ''create'', JStr ''net1''],
          promise = Resolved (Network (JObj [(''name'', JStr ''net1''),
            (''id'', JStr ''4f2a''), (''status'', JStr ''alive'')])),
          argument = JStr ''net1''\<rparr> \<and>
   is_string (JStr ''net1'') \<and>
   entity_options (Container (JObj [(''image'', JStr ''hello-world''),
            (''id'', JStr ''4f2a''), (''status'', JStr ''created'')])) =
     JObj [(''image'', JStr ''hello-world''), (''id'', JStr ''4f2a''), (''status'', JStr ''created'')] \<and>
   CreateContainer decimal (refuses ''name already in use'') image_only None None =
     Inr \<lparr>argv = [JStr ''container'', JStr ''create'', JStr ''hello-world''],
          promise = Rejected (ExecutionError ''name already in use''),
          argument = image_only\<rparr> \<and>
   CreateNetwork (refuses ''name already in use'') (JObj [(''name'', JStr ''net1'')]) =
     Inr \<lparr>argv = [JStr ''network'', JStr ''create'', JStr ''net1''],
          promise = Rejected (ExecutionError ''name already in use''),
          argument = JObj [(''name'', JStr ''net1'')]\<rparr>"
proof -
  let ?e = "Container (JObj [(''image'', JStr ''hello-world''),
            (''id'', JStr ''4f2a''), (''status'', JStr ''created'')])"
  let ?c = "\<lparr>argv = [JStr ''container'', JStr ''create'', JStr ''hello-world''],
          promise = Resolved ?e,
          argument = JObj [(''image'', JStr ''hello-world''),
            (''id'', JStr ''4f2a''), (''status'', JStr ''created'')]\<rparr>"
  let ?e' = "Network (JObj [(''name'', JStr ''net1''),
            (''id'', JStr ''4f2a''), (''status'', JStr ''alive'')])"
  let ?c' = "\<lparr>argv = [JStr ''network'', JStr ''create'', JStr ''net1''],
          promise = Resolved ?e',
          argument = JObj [(''name'', JStr ''net1''),
            (''id'', JStr ''4f2a''), (''status'', JStr ''alive'')]\<rparr>"
  let ?c'' = "\<lparr>argv = [JStr ''network'', JStr ''create'', JStr ''net1''],
          promise = Resolved ?e', argument = JStr ''net1''\<rparr>"
  let ?f = "\<lparr>argv = [JStr ''container'', JStr ''create'', JStr ''hello-world''],
          promise = Rejected (ExecutionError ''name already in use'') :: entity settled,
          argument = image_only\<rparr>"
  let ?f' = "\<lparr>argv = [JStr ''network'', JStr ''create'', JStr ''net1''],
          promise = Rejected (ExecutionError ''name already in use'') :: entity settled,
          argument = JObj [(''name'', JStr ''net1'')]\<rparr>"
  have container: "CreateContainer decimal (prints ''4f2a\<newline>'') image_only None None = Inr ?c"
    by (simp add: CreateContainer_def builder_defs promise_defs container_created_def
        replace_newline_def image_only_def Let_def)
  have object: "CreateNetwork (prints ''4f2a\<newline>'') (JObj [(''name'', JStr ''net1'')]) = Inr ?c'"
    by (simp add: CreateNetwork_def ProcessCreateNetworkOption_def and_then_def promise_defs
        network_created_def replace_newline_def Let_def)
  have bare: "CreateNetwork (prints ''4f2a\<newline>'') (JStr ''net1'') = Inr ?c''"
    by (simp add: CreateNetwork_def ProcessCreateNetworkOption_def and_then_def promise_defs
        network_created_def replace_newline_def Let_def)
  have refused: "CreateContainer decimal (refuses ''name already in use'') image_only None None = Inr ?f"
    by (simp add: CreateContainer_def builder_defs spawn_and_return_def ReturnPromise_def
        refuses_def image_only_def Let_def)
  have refused': "CreateNetwork (refuses ''name already in use'') (JObj [(''name'', JStr ''net1'')]) =
      Inr ?f'"
    by (simp add: CreateNetwork_def ProcessCreateNetworkOption_def and_then_def
        spawn_and_return_def ReturnPromise_def refuses_def Let_def)
  from options_written [of decimal "prints ''4f2a\<newline>''" image_only None None ?c ?e
      "JObj [(''name'', JStr ''net1'')]" ?c' ?e']
    options_written [of decimal "prints ''4f2a\<newline>''" image_only None None ?c ?e
      "JStr ''net1''" ?c'' ?e']
    options_written [of decimal "refuses ''name already in use''" image_only None None ?f ?e
      "JObj [(''name'', JStr ''net1'')]" ?f' ?e']
    container object bare refused refused'
  show ?thesis by simp
qed

text \<open>
  Claim C8 as stated fails: after a successful \<^verbatim>\<open>CreateContainer\<close> the caller's object has
  the two properties \<^verbatim>\<open>id\<close> and \<^verbatim>\<open>status\<close> it did not have before.
\<close>

theorem options_written_counterexample:
  "CreateContainer decimal (prints ''4f2a\<newline>'') image_only None None =
     Inr \<lparr>argv = [JStr ''container'', JStr ''create'', JStr ''hello-world''],
          promise = Resolved (Container (JObj [(''image'', JStr ''hello-world''),
            (''id'', JStr ''4f2a''), (''status'', JStr ''created'')])),
          argument = JObj [(''image'', JStr ''hello-world''),
            (''id'', JStr ''4f2a''), (''status'', JStr ''created'')]\<rparr> \<and>
   JObj [(''image'', JStr ''hello-world''), (''id'', JStr ''4f2a''), (''status'', JStr ''created'')]
     \<noteq> image_only"
  by (simp add: CreateContainer_def builder_defs promise_defs container_created_def
      replace_newline_def image_only_def Let_def)

text \<open>
  Claim C9, as amended. When \<^verbatim>\<open>commands\<close> is truthy but is not an array, the builder
  throws, and \<^verbatim>\<open>CreateContainer\<close> throws the exception of the builder before any process
  is spawned; so does \<^verbatim>\<open>RunInContainer\<close> when \<^verbatim>\<open>rm\<close> is set, and without \<^verbatim>\<open>rm\<close> it throws
  the \<^verbatim>\<open>TypeError\<close> of its own check on \<^verbatim>\<open>rm\<close>. The check is the last one: if the
  configuration without its commands is accepted, its tokens ending with the image, the
  exception is the \<^verbatim>\<open>TypeError\<close> of the commands; and if the configuration without its
  commands is rejected, the same exception is thrown with them. Commands that are present
  but falsy are treated as absent: nothing is thrown for them.
\<close>

theorem commands_shape_check:
  assumes "provided options ''commands''" and "\<not> is_array (field options ''commands'')"
  shows "(\<exists>e. processCreateContainerOptions render options run detach = Inl e) \<and>
     (\<exists>e. processCreateContainerOptions render options (default_to False run') (default_to True detach')
            = Inl e \<and>
          CreateContainer render docker options run' detach' = Inl e) \<and>
     (provided options ''rm'' \<longrightarrow>
        (\<exists>e. processCreateContainerOptions render options True False = Inl e \<and>
             RunInContainer render docker options = Inl e)) \<and>
     (\<not> provided options ''rm'' \<longrightarrow>
        RunInContainer render docker options = Inl (TypeError run_rm_message)) \<and>
     (\<forall>args. processCreateContainerOptions render (delete_prop options ''commands'') run detach = Inr args
        \<longrightarrow> last args = field options ''image'' \<and>
            processCreateContainerOptions render options run detach = Inl (TypeError commands_message)) \<and>
     (\<forall>e. processCreateContainerOptions render (delete_prop options ''commands'') run detach = Inl e
        \<longrightarrow> processCreateContainerOptions render options run detach = Inl e) \<and>
     (\<forall>v. \<not> truthy v \<longrightarrow>
        processCreateContainerOptions render (set_prop options ''commands'' v) run detach =
        processCreateContainerOptions render (delete_prop options ''commands'') run detach)"
proof -
  have fails: "\<exists>e. processCreateContainerOptions render options r d = Inl e" for r d
  proof (cases "processCreateContainerOptions render options r d")
    case (Inr args)
    with assms show ?thesis by (simp add: builder_Inr_iff accepted_def)
  qed simp
  from assms(1) have present: "\<not> nullish options" "truthy (field options ''commands'')"
    using provided_not_nullish [OF assms(1)] by (simp_all add: provided_def)
  from fails [of "default_to False run'" "default_to True detach'"]
  have create: "\<exists>e. processCreateContainerOptions render options (default_to False run')
        (default_to True detach') = Inl e \<and>
      CreateContainer render docker options run' detach' = Inl e"
    by (auto simp: CreateContainer_def Let_def and_then_def)
  from fails [of True False] present
  have run: "\<exists>e. processCreateContainerOptions render options True False = Inl e \<and>
      RunInContainer render docker options = Inl e" if "provided options ''rm''"
    using that by (auto simp: RunInContainer_def get_Inr and_then_def provided_def)
  from present
  have rm: "RunInContainer render docker options = Inl (TypeError run_rm_message)"
    if "\<not> provided options ''rm''"
    using that by (simp add: RunInContainer_def get_Inr and_then_def provided_def)
  have last: "last args = field options ''image'' \<and>
      processCreateContainerOptions render options run detach = Inl (TypeError commands_message)"
    if "processCreateContainerOptions render (delete_prop options ''commands'') run detach = Inr args"
    for args
    using that unfolding builder_without_commands [OF assms]
    by (auto simp: and_then_def split: if_splits sum.splits)
  have first: "processCreateContainerOptions render options run detach = Inl e"
    if "processCreateContainerOptions render (delete_prop options ''commands'') run detach = Inl e"
    for e
    using that unfolding builder_without_commands [OF assms]
    by (auto simp: and_then_def split: if_splits sum.splits)
  from fails create run rm last first falsy_field_absent [of _ render options "''commands''" run detach]
  show ?thesis by blast
qed

theorem commands_shape_check_witness:
  "provided text_commands ''commands'' \<and> \<not> is_array (field text_commands ''commands'') \<and>
   provided text_commands ''rm'' \<and>
   processCreateContainerOptions decimal (delete_prop text_commands ''commands'') True False =
     Inr [JStr ''container'', JStr ''run'', JStr ''--rm'', JStr ''hello-world''] \<and>
   processCreateContainerOptions decimal text_commands True False = Inl (TypeError commands_message) \<and>
   processCreateContainerOptions decimal text_commands False True = Inl (TypeError commands_message) \<and>
   CreateContainer decimal (prints ''4f2a\<newline>'') text_commands None None =
     Inl (TypeError commands_message) \<and>
   RunInContainer decimal (prints ''4f2a\<newline>'') text_commands = Inl (TypeError commands_message) \<and>
   \<not> truthy (JStr []) \<and>
   processCreateContainerOptions decimal (set_prop text_commands ''commands'' (JStr [])) True False =
     Inr [JStr ''container'', JStr ''run'', JStr ''--rm'', JStr ''hello-world'']"
proof -
  have shape: "provided text_commands ''commands''" "\<not> is_array (field text_commands ''commands'')"
    by (simp_all add: provided_def text_commands_def)
  have rm: "provided text_commands ''rm''"
    by (simp add: provided_def text_commands_def)
  have without: "processCreateContainerOptions decimal (delete_prop text_commands ''commands'') True False =
     Inr [JStr ''container'', JStr ''run'', JStr ''--rm'', JStr ''hello-world'']"
    by (simp add: builder_defs text_commands_def Let_def)
  have builder: "processCreateContainerOptions decimal text_commands False True =
      Inl (TypeError commands_message)"
    by (simp add: builder_defs text_commands_def Let_def)
  have falsy: "\<not> truthy (JStr [])" by simp
  from commands_shape_check [OF shape, of decimal True False None None "prints ''4f2a\<newline>''"]
    shape rm without builder falsy
  show ?thesis by auto
qed

text \<open>
  Claim C9 as stated fails: commands that are the empty string are present and are not
  a list, yet the builder returns its tokens and \<^verbatim>\<open>CreateContainer\<close> spawns the process.
\<close>

theorem commands_shape_check_counterexample:
  "field blank_commands ''commands'' = JStr [] \<and> \<not> is_array (JStr []) \<and>
   processCreateContainerOptions decimal blank_commands False True =
     Inr [JStr ''container'', JStr ''create'', JStr ''hello-world''] \<and>
   CreateContainer decimal (prints ''4f2a\<newline>'') blank_commands None None =
     Inr \<lparr>argv = [JStr ''container'', JStr ''create'', JStr ''hello-world''],
          promise = Resolved (Container (JObj [(''image'', JStr ''hello-world''),
            (''commands'', JStr []), (''id'', JStr ''4f2a''), (''status'', JStr ''created'')])),
          argument = JObj [(''image'', JStr ''hello-world''),
            (''commands'', JStr []), (''id'', JStr ''4f2a''), (''status'', JStr ''created'')]\<rparr>"
  by (simp add: CreateContainer_def builder_defs promise_defs container_created_def
      replace_newline_def blank_commands_def Let_def)

text \<open>
  Claim C10. The presence checks of the builder are truthiness tests: a field of the
  options, or of the health block, that has a falsy value is treated as if the field
  were absent. So \<^verbatim>\<open>health.retries = 0\<close>, a whole number, throws nothing and gives no
  retries token; and appending to an accepted configuration a volume, port or environment
  entry one of whose pair fields is \<open>0\<close> or the empty string is rejected with the
  exception for a missing pair field.
\<close>

theorem presence_by_truthiness:
  "(\<not> truthy v \<longrightarrow>
      processCreateContainerOptions render (set_prop options k v) run detach =
      processCreateContainerOptions render (delete_prop options k) run detach) \<and>
   (\<not> truthy v' \<longrightarrow>
      processCreateContainerOptions render (set_prop options ''health'' (set_prop health k' v')) run detach =
      processCreateContainerOptions render (set_prop options ''health'' (delete_prop health k')) run detach) \<and>
   \<not> truthy (JNum 0) \<and> is_integer (JNum 0) \<and> \<not> truthy (JStr []) \<and>
   (accepted options \<and>
    (field entry ''host'' \<in> set [JNum 0, JStr []] \<or> field entry ''docker'' \<in> set [JNum 0, JStr []]) \<longrightarrow>
      processCreateContainerOptions render (with_entry options ''volumes'' entry) run detach =
        Inl (Error volumes_item_message) \<and>
      processCreateContainerOptions render (with_entry options ''exposePorts'' entry) run detach =
        Inl (Error ports_item_message)) \<and>
   (accepted options \<and>
    (field entry ''name'' \<in> set [JNum 0, JStr []] \<or> field entry ''value'' \<in> set [JNum 0, JStr []]) \<longrightarrow>
      processCreateContainerOptions render (with_entry options ''environmentVariables'' entry) run detach =
        Inl (Error environment_item_message))"
proof (intro conjI impI)
  assume a: "accepted options \<and>
    (field entry ''host'' \<in> set [JNum 0, JStr []] \<or> field entry ''docker'' \<in> set [JNum 0, JStr []])"
  then have "\<not> nullish entry" "\<not> has_pair ''host'' ''docker'' entry"
    by (cases entry; auto simp: has_pair_def provided_def)+
  with a bad_entry_rejected(1,3) [of options entry render run detach]
  show "processCreateContainerOptions render (with_entry options ''volumes'' entry) run detach =
        Inl (Error volumes_item_message)"
    and "processCreateContainerOptions render (with_entry options ''exposePorts'' entry) run detach =
        Inl (Error ports_item_message)"
    by simp_all
next
  assume a: "accepted options \<and>
    (field entry ''name'' \<in> set [JNum 0, JStr []] \<or> field entry ''value'' \<in> set [JNum 0, JStr []])"
  then have "\<not> nullish entry" "\<not> has_pair ''name'' ''value'' entry"
    by (cases entry; auto simp: has_pair_def provided_def)+
  with a bad_entry_rejected(2) [of options entry render run detach]
  show "processCreateContainerOptions render (with_entry options ''environmentVariables'' entry) run detach =
        Inl (Error environment_item_message)"
    by simp
qed (simp_all add: falsy_field_absent falsy_health_field_absent)

theorem presence_by_truthiness_witness:
  "\<not> truthy (JNum 0) \<and>
   processCreateContainerOptions decimal (JObj [(''image'', JStr ''hello-world''), (''name'', JStr [])])
       False True =
     Inr [JStr ''container'', JStr ''create'', JStr ''hello-world''] \<and>
   processCreateContainerOptions decimal (JObj [(''image'', JStr ''hello-world''), (''health'', zero_retries)])
       False True =
     Inr [JStr ''container'', JStr ''create'', JStr ''--health-cmd'', JStr ''true'', JStr ''hello-world''] \<and>
   accepted image_only \<and> field zero_port ''host'' \<in> set [JNum 0, JStr []] \<and>
   processCreateContainerOptions decimal
       (JObj [(''image'', JStr ''hello-world''), (''exposePorts'', JArr [zero_port])]) False True =
     Inl (Error ports_item_message) \<and>
   processCreateContainerOptions decimal
       (JObj [(''image'', JStr ''hello-world''), (''volumes'', JArr [zero_port])]) False True =
     Inl (Error volumes_item_message) \<and>
   field (JObj [(''name'', JStr ''DOCKER_ENV''), (''value'', JStr [])]) ''value'' \<in> set [JNum 0, JStr []] \<and>
   processCreateContainerOptions decimal
       (JObj [(''image'', JStr ''hello-world''), (''environmentVariables'',
          JArr [JObj [(''name'', JStr ''DOCKER_ENV''), (''value'', JStr [])]])]) False True =
     Inl (Error environment_item_message)"
proof -
  have a: "accepted image_only"
    by (simp add: accepted_def health_ok_def list_valued_def provided_def image_only_def)
  have b: "field zero_port ''host'' = JNum 0"
    by (simp add: zero_port_def)
  have c: "\<not> truthy (JNum 0)" "\<not> truthy (JStr [])" by simp_all
  have entries:
    "with_entry image_only ''exposePorts'' zero_port =
       JObj [(''image'', JStr ''hello-world''), (''exposePorts'', JArr [zero_port])]"
    "with_entry image_only ''volumes'' zero_port =
       JObj [(''image'', JStr ''hello-world''), (''volumes'', JArr [zero_port])]"
    "with_entry image_only ''environmentVariables''
         (JObj [(''name'', JStr ''DOCKER_ENV''), (''value'', JStr [])]) =
       JObj [(''image'', JStr ''hello-world''), (''environmentVariables'',
          JArr [JObj [(''name'', JStr ''DOCKER_ENV''), (''value'', JStr [])]])]"
    by (simp_all add: with_entry_def image_only_def)
  have fields:
    "set_prop image_only ''name'' (JStr []) =
       JObj [(''image'', JStr ''hello-world''), (''name'', JStr [])]"
    "set_prop image_only ''health'' (set_prop (JObj [(''command'', JStr ''true'')]) ''retries'' (JNum 0)) =
       JObj [(''image'', JStr ''hello-world''), (''health'', zero_retries)]"
    by (simp_all add: image_only_def zero_retries_def)
  have absent:
    "processCreateContainerOptions decimal (delete_prop image_only ''name'') False True =
       Inr [JStr ''container'', JStr ''create'', JStr ''hello-world'']"
    "processCreateContainerOptions decimal
       (set_prop image_only ''health'' (delete_prop (JObj [(''command'', JStr ''true'')]) ''retries''))
       False True =
       Inr [JStr ''container'', JStr ''create'', JStr ''--health-cmd'', JStr ''true'', JStr ''hello-world'']"
    by (simp_all add: image_only_def builder_defs Let_def)
  from presence_by_truthiness [where v = "JStr []" and render = decimal and options = image_only
      and k = "''name''" and run = False and detach = True and v' = "JNum 0"
      and health = "JObj [(''command'', JStr ''true'')]" and k' = "''retries''" and entry = zero_port]
    presence_by_truthiness [where v = "JStr []" and render = decimal and options = image_only
      and k = "''name''" and run = False and detach = True and v' = "JNum 0"
      and health = "JObj [(''command'', JStr ''true'')]" and k' = "''retries''"
      and entry = "JObj [(''name'', JStr ''DOCKER_ENV''), (''value'', JStr [])]"]
    a b c
  show ?thesis
    unfolding entries fields absent by simp
qed

end
